theory Spec2Isabelle
  imports Complex_Main "HOL-Library.Log_Nat"
begin

section \<open>The translation orchestration of the App component\<close>

text \<open>
  The development follows \<^verbatim>\<open>detectLanguageAndTranslate\<close> of the App component
  (lines 246 to 443 of the component source) and the React state it reads and writes
  (lines 122 to 141). One invocation is modelled as a function from the state at the
  start, the responses of the outside world and the input text to the state at the end,
  the list of the effects that happened on the way, and the path taken.

  Strings are byte lists (UTF-8); the source's strings are UTF-16, which makes no
  difference to equality, to concatenation, to a search for an ASCII needle, or to the
  removal of white space from the ends of a well-formed text. A Number is a double,
  given by its exact value; the subtraction of two Numbers rounds as binary64 arithmetic
  does. The result also names the
  path that was taken: the early return of line 247, the return of line 306 on a cache
  hit, the end of the try block with the engine that answered, the return of line 418
  after the fallback, or the error message of line 439.
\<close>

subsection \<open>Data\<close>

type_synonym lang = string

datatype engine = Engine_ml | Engine_ollama

text \<open>
  A rejected \<^verbatim>\<open>invoke\<close> throws a value; the catch block only asks whether it is a
  string (\<^verbatim>\<open>typeof error === 'string'\<close>) and, if so, what it contains.
\<close>

datatype js_error = StringError string | OtherError

text \<open>
  A Number: a finite double by its exact value (the two zeros are one value here), one of
  the infinities, or NaN.
\<close>

datatype js_number = Num rat | PosInfinity | NegInfinity | NotANumber

text \<open>\<^verbatim>\<open>MLTranslateResponse\<close>, lines 98 to 103.\<close>

record MLTranslateResponse =
  translated_text :: string
  confidence_score :: js_number
  latency_ms :: js_number

text \<open>The argument object of \<^verbatim>\<open>save_translation_history\<close>, lines 352 to 360.\<close>

record history_args =
  sourceText :: string
  translatedText_arg :: string
  fromLanguage :: lang
  toLanguage :: lang
  engine_arg :: engine
  latencyMs :: "js_number option"
  historyPath :: "string option"

text \<open>
  The effects of one invocation that a caller can observe from outside: the commands
  invoked on the backend, in order, and the calls of \<^verbatim>\<open>setIsTranslating\<close>.
\<close>

datatype event =
    Invoke_ml_detect_language string
  | Invoke_detect_language string
  | Invoke_ml_translate string lang lang
  | Invoke_translate string lang lang
  | Invoke_save_translation_history history_args
  | SetIsTranslating bool

text \<open>
  A JavaScript \<^verbatim>\<open>Map\<close> from strings to strings: an association list in insertion
  order, with no key twice.
\<close>

type_synonym js_map = "(string \<times> string) list"

text \<open>
  The React state of the component that the function touches (lines 122 to 136), and
  the three keys of \<^verbatim>\<open>localStorage\<close> it reads (\<^verbatim>\<open>getItem\<close> gives null for
  a key that is not stored).
\<close>

record app_state =
  translatedText :: string
  fromLang :: lang
  toLang :: lang
  isTranslating :: bool
  isHealthy :: bool
  mlEngineHealthy :: bool
  useMLEngine :: bool
  translationCache :: js_map
  lastTranslationLatency :: "js_number option"
  lastUsedEngine :: "engine option"
  storage_nativeLang :: "string option"
  storage_saveHistory :: "string option"
  storage_historyPath :: "string option"

text \<open>
  The outside world during one invocation: what each backend command answers (the
  field of the response the code reads, or the thrown value), and the time in
  milliseconds that the clock shows after the events so far, of which
  \<^verbatim>\<open>performance.now()\<close> returns the nearest double. A response to \<^verbatim>\<open>detect_language\<close> or \<^verbatim>\<open>ml_detect_language\<close> is its
  \<^verbatim>\<open>language\<close> field, a response to \<^verbatim>\<open>translate\<close> its \<^verbatim>\<open>translated_text\<close>.
\<close>

record world =
  ml_detect_language :: "string \<Rightarrow> js_error + lang"
  detect_language :: "string \<Rightarrow> js_error + lang"
  ml_translate :: "string \<Rightarrow> lang \<Rightarrow> lang \<Rightarrow> js_error + MLTranslateResponse"
  translate :: "string \<Rightarrow> lang \<Rightarrow> lang \<Rightarrow> js_error + string"
  clock :: "event list \<Rightarrow> rat"

datatype outcome = Ignored | CacheHit | Translated engine | FellBack | Failed

record run =
  state :: app_state
  trace :: "event list"
  outcome :: outcome

subsection \<open>Strings and the clock\<close>

fun starts_with :: "string \<Rightarrow> string \<Rightarrow> bool" where
  "starts_with t [] = True"
| "starts_with [] (p # ps) = False"
| "starts_with (c # cs) (p # ps) = (c = p \<and> starts_with cs ps)"

text \<open>
  \<^verbatim>\<open>trim\<close> removes the white space and the line terminators of ECMAScript from both
  ends: the code points U+0009 to U+000D, U+0020, U+00A0, U+1680, U+2000 to U+200A,
  U+2028, U+2029, U+202F, U+205F, U+3000 and U+FEFF, here in their UTF-8 encodings.
\<close>

definition js_white_space :: "string list" where
  "js_white_space =
     [[CHR 0x09], [CHR 0x0A], [CHR 0x0B], [CHR 0x0C], [CHR 0x0D], [CHR 0x20],
      [CHR 0xC2, CHR 0xA0], [CHR 0xE1, CHR 0x9A, CHR 0x80],
      [CHR 0xE2, CHR 0x80, CHR 0x80], [CHR 0xE2, CHR 0x80, CHR 0x81],
      [CHR 0xE2, CHR 0x80, CHR 0x82], [CHR 0xE2, CHR 0x80, CHR 0x83],
      [CHR 0xE2, CHR 0x80, CHR 0x84], [CHR 0xE2, CHR 0x80, CHR 0x85],
      [CHR 0xE2, CHR 0x80, CHR 0x86], [CHR 0xE2, CHR 0x80, CHR 0x87],
      [CHR 0xE2, CHR 0x80, CHR 0x88], [CHR 0xE2, CHR 0x80, CHR 0x89],
      [CHR 0xE2, CHR 0x80, CHR 0x8A], [CHR 0xE2, CHR 0x80, CHR 0xA8],
      [CHR 0xE2, CHR 0x80, CHR 0xA9], [CHR 0xE2, CHR 0x80, CHR 0xAF],
      [CHR 0xE2, CHR 0x81, CHR 0x9F], [CHR 0xE3, CHR 0x80, CHR 0x80],
      [CHR 0xEF, CHR 0xBB, CHR 0xBF]]"

definition white_space_at :: "string list \<Rightarrow> string \<Rightarrow> nat" where
  \<comment> \<open>the number of bytes of the white-space character that the text starts with, or 0\<close>
  "white_space_at ps t = (case filter (starts_with t) ps of [] \<Rightarrow> 0 | p # _ \<Rightarrow> length p)"

fun strip :: "string list \<Rightarrow> nat \<Rightarrow> string \<Rightarrow> string" where
  \<comment> \<open>drops leading white space; the number counts the bytes still to drop of one character\<close>
  "strip ps n [] = []"
| "strip ps (Suc n) (c # cs) = strip ps n cs"
| "strip ps 0 (c # cs) =
     (case white_space_at ps (c # cs) of 0 \<Rightarrow> c # cs | Suc k \<Rightarrow> strip ps k cs)"

definition trim :: "string \<Rightarrow> string" where
  "trim t = rev (strip (map rev js_white_space) 0 (rev (strip js_white_space 0 t)))"

fun js_includes :: "string \<Rightarrow> string \<Rightarrow> bool" where
  "js_includes [] p = (p = [])"
| "js_includes (c # cs) p = (starts_with (c # cs) p \<or> js_includes cs p)"

definition truthy :: "string option \<Rightarrow> string option" where
  \<comment> \<open>a string, null or undefined used as a condition: the empty string counts as absent\<close>
  "truthy v = (case v of None \<Rightarrow> None | Some x \<Rightarrow> if x = [] then None else Some x)"

text \<open>
  Numbers. \<^verbatim>\<open>to_double\<close> rounds a rational to the nearest binary64 value, ties to the even
  significand: 53 significant bits, exponents from -1022 to 1023, subnormal values below,
  an infinity from \<open>2 ^ 1024 - 2 ^ 970\<close> on. The difference of two doubles is the
  exact difference rounded so; \<^verbatim>\<open>Math.round\<close> gives the integer nearest to its
  argument, the larger one at a tie.
\<close>

definition pow2 :: "int \<Rightarrow> rat" where
  "pow2 e = (if 0 \<le> e then 2 ^ nat e else 1 / 2 ^ nat (- e))"

definition binary_exponent :: "rat \<Rightarrow> int" where
  \<comment> \<open>for x other than 0, the e with \<open>2 ^ e \<le> \<bar>x\<bar> < 2 ^ (e + 1)\<close>\<close>
  "binary_exponent x =
     (if 1 \<le> \<bar>x\<bar> then bitlen \<lfloor>\<bar>x\<bar>\<rfloor> - 1 else - bitlen (\<lceil>1 / \<bar>x\<bar>\<rceil> - 1))"

definition round_half_even :: "rat \<Rightarrow> int" where
  "round_half_even x =
     (let f = \<lfloor>x\<rfloor>; r = x - of_int f
      in if r < 1 / 2 then f else if 1 / 2 < r then f + 1 else if even f then f else f + 1)"

definition to_double :: "rat \<Rightarrow> js_number" where
  "to_double x =
     (if x = 0 then Num 0
      else
        (let e = min 1023 (max (- 1022) (binary_exponent x));
             ulp = pow2 (e - 52);
             n = round_half_even (x / ulp)
         in if e = 1023 \<and> 2 ^ 53 \<le> n then PosInfinity
            else if e = 1023 \<and> n \<le> - (2 ^ 53) then NegInfinity
            else Num (of_int n * ulp)))"

fun js_minus :: "js_number \<Rightarrow> js_number \<Rightarrow> js_number" where
  "js_minus NotANumber y = NotANumber"
| "js_minus x NotANumber = NotANumber"
| "js_minus (Num a) (Num b) = to_double (a - b)"
| "js_minus (Num a) PosInfinity = NegInfinity"
| "js_minus (Num a) NegInfinity = PosInfinity"
| "js_minus PosInfinity PosInfinity = NotANumber"
| "js_minus PosInfinity y = PosInfinity"
| "js_minus NegInfinity NegInfinity = NotANumber"
| "js_minus NegInfinity y = NegInfinity"

fun Math_round :: "js_number \<Rightarrow> js_number" where
  "Math_round (Num x) = Num (of_int \<lfloor>x + 1 / 2\<rfloor>)"
| "Math_round x = x"

fun js_positive :: "js_number \<Rightarrow> bool" where
  \<comment> \<open>the comparison \<^verbatim>\<open>x > 0\<close>\<close>
  "js_positive (Num x) = (0 < x)"
| "js_positive PosInfinity = True"
| "js_positive x = False"

definition performance_now :: "world \<Rightarrow> event list \<Rightarrow> js_number" where
  \<comment> \<open>the reading of the clock after the events so far\<close>
  "performance_now w tr = to_double (clock w tr)"

subsection \<open>The Map operations the code uses\<close>

definition map_get :: "js_map \<Rightarrow> string \<Rightarrow> string option" where
  "map_get m k = map_of m k"

fun map_set :: "js_map \<Rightarrow> string \<Rightarrow> string \<Rightarrow> js_map" where
  "map_set [] k v = [(k, v)]"
| "map_set ((k', v') # m) k v =
     (if k' = k then (k, v) # m else (k', v') # map_set m k v)"

definition map_delete :: "js_map \<Rightarrow> string \<Rightarrow> js_map" where
  "map_delete m k = filter (\<lambda>kv. fst kv \<noteq> k) m"

definition map_size :: "js_map \<Rightarrow> nat" where
  "map_size m = length m"

definition first_key :: "js_map \<Rightarrow> string option" where
  \<comment> \<open>keys().next().value: undefined on an empty Map\<close>
  "first_key m = (case m of [] \<Rightarrow> None | kv # _ \<Rightarrow> Some (fst kv))"

subsection \<open>The messages of the catch block\<close>

definition msg_default :: string where
  \<comment> \<open>line 377: the default message, a translation error occurred.\<close>
  "msg_default =
    [CHR 0xE7, CHR 0xBF, CHR 0xBB, CHR 0xE8, CHR 0xA8, CHR 0xB3, CHR 0xE3, CHR 0x82, CHR 0xA8,
    CHR 0xE3, CHR 0x83, CHR 0xA9, CHR 0xE3, CHR 0x83, CHR 0xBC, CHR 0xE3, CHR 0x81, CHR 0x8C,
    CHR 0xE7, CHR 0x99, CHR 0xBA, CHR 0xE7, CHR 0x94, CHR 0x9F, CHR 0xE3, CHR 0x81, CHR 0x97,
    CHR 0xE3, CHR 0x81, CHR 0xBE, CHR 0xE3, CHR 0x81, CHR 0x97, CHR 0xE3, CHR 0x81, CHR 0x9F]"

definition msg_connect :: string where
  \<comment> \<open>line 427: Ollama cannot be reached; asks to start it with ollama serve.\<close>
  "msg_connect =
    ''Ollama'' @ [CHR 0xE3, CHR 0x81, CHR 0xAB, CHR 0xE6, CHR 0x8E, CHR 0xA5, CHR 0xE7,
    CHR 0xB6, CHR 0x9A, CHR 0xE3, CHR 0x81, CHR 0xA7, CHR 0xE3, CHR 0x81, CHR 0x8D, CHR 0xE3,
    CHR 0x81, CHR 0xBE, CHR 0xE3, CHR 0x81, CHR 0x9B, CHR 0xE3, CHR 0x82, CHR 0x93, CHR 0xE3,
    CHR 0x80, CHR 0x82] @ ''Ollama'' @ [CHR 0xE3, CHR 0x81, CHR 0x8C, CHR 0xE8, CHR 0xB5,
    CHR 0xB7, CHR 0xE5, CHR 0x8B, CHR 0x95, CHR 0xE3, CHR 0x81, CHR 0x97, CHR 0xE3, CHR 0x81,
    CHR 0xA6, CHR 0xE3, CHR 0x81, CHR 0x84, CHR 0xE3, CHR 0x82, CHR 0x8B, CHR 0xE3, CHR 0x81,
    CHR 0x93, CHR 0xE3, CHR 0x81, CHR 0xA8, CHR 0xE3, CHR 0x82, CHR 0x92, CHR 0xE7, CHR 0xA2,
    CHR 0xBA, CHR 0xE8, CHR 0xAA, CHR 0x8D, CHR 0xE3, CHR 0x81, CHR 0x97, CHR 0xE3, CHR 0x81,
    CHR 0xA6, CHR 0xE3, CHR 0x81, CHR 0x8F, CHR 0xE3, CHR 0x81, CHR 0xA0, CHR 0xE3, CHR 0x81,
    CHR 0x95, CHR 0xE3, CHR 0x81, CHR 0x84, CHR 0xE3, CHR 0x80, CHR 0x82, CHR 0x0A, CHR 0x0A,
    CHR 0xE8, CHR 0xB5, CHR 0xB7, CHR 0xE5, CHR 0x8B, CHR 0x95, CHR 0xE6, CHR 0x96, CHR 0xB9,
    CHR 0xE6, CHR 0xB3, CHR 0x95] @ '': ollama serve''"

definition msg_no_model :: string where
  \<comment> \<open>line 429: no suitable model; asks to run ollama pull llama3.1:8b.\<close>
  "msg_no_model =
    [CHR 0xE9, CHR 0x81, CHR 0xA9, CHR 0xE5, CHR 0x88, CHR 0x87, CHR 0xE3, CHR 0x81, CHR 0xAA,
    CHR 0xE3, CHR 0x83, CHR 0xA2, CHR 0xE3, CHR 0x83, CHR 0x87, CHR 0xE3, CHR 0x83, CHR 0xAB,
    CHR 0xE3, CHR 0x81, CHR 0x8C, CHR 0xE8, CHR 0xA6, CHR 0x8B, CHR 0xE3, CHR 0x81, CHR 0xA4,
    CHR 0xE3, CHR 0x81, CHR 0x8B, CHR 0xE3, CHR 0x82, CHR 0x8A, CHR 0xE3, CHR 0x81, CHR 0xBE,
    CHR 0xE3, CHR 0x81, CHR 0x9B, CHR 0xE3, CHR 0x82, CHR 0x93, CHR 0xE3, CHR 0x80, CHR 0x82,
    CHR 0x0A, CHR 0x0A, CHR 0xE4, CHR 0xBB, CHR 0xA5, CHR 0xE4, CHR 0xB8, CHR 0x8B, CHR 0xE3,
    CHR 0x81, CHR 0xAE, CHR 0xE3, CHR 0x82, CHR 0xB3, CHR 0xE3, CHR 0x83, CHR 0x9E, CHR 0xE3,
    CHR 0x83, CHR 0xB3, CHR 0xE3, CHR 0x83, CHR 0x89, CHR 0xE3, CHR 0x81, CHR 0xA7, CHR 0xE3,
    CHR 0x83, CHR 0xA2, CHR 0xE3, CHR 0x83, CHR 0x87, CHR 0xE3, CHR 0x83, CHR 0xAB, CHR 0xE3,
    CHR 0x82, CHR 0x92, CHR 0xE3, CHR 0x82, CHR 0xA4, CHR 0xE3, CHR 0x83, CHR 0xB3, CHR 0xE3,
    CHR 0x82, CHR 0xB9, CHR 0xE3, CHR 0x83, CHR 0x88, CHR 0xE3, CHR 0x83, CHR 0xBC, CHR 0xE3,
    CHR 0x83, CHR 0xAB, CHR 0xE3, CHR 0x81, CHR 0x97, CHR 0xE3, CHR 0x81, CHR 0xA6, CHR 0xE3,
    CHR 0x81, CHR 0x8F, CHR 0xE3, CHR 0x81, CHR 0xA0, CHR 0xE3, CHR 0x81, CHR 0x95, CHR 0xE3,
    CHR 0x81, CHR 0x84] @ '':'' @ [CHR 0x0A] @ ''ollama pull llama3.1:8b''"

definition msg_model_load :: string where
  \<comment> \<open>line 431: the model failed to load; asks to retry later.\<close>
  "msg_model_load =
    [CHR 0xE3, CHR 0x83, CHR 0xA2, CHR 0xE3, CHR 0x83, CHR 0x87, CHR 0xE3, CHR 0x83, CHR 0xAB,
    CHR 0xE3, CHR 0x81, CHR 0xAE, CHR 0xE8, CHR 0xAA, CHR 0xAD, CHR 0xE3, CHR 0x81, CHR 0xBF,
    CHR 0xE8, CHR 0xBE, CHR 0xBC, CHR 0xE3, CHR 0x81, CHR 0xBF, CHR 0xE3, CHR 0x82, CHR 0xA8,
    CHR 0xE3, CHR 0x83, CHR 0xA9, CHR 0xE3, CHR 0x83, CHR 0xBC, CHR 0xE3, CHR 0x81, CHR 0xA7,
    CHR 0xE3, CHR 0x81, CHR 0x99, CHR 0xE3, CHR 0x80, CHR 0x82, CHR 0xE3, CHR 0x81, CHR 0x97,
    CHR 0xE3, CHR 0x81, CHR 0xB0, CHR 0xE3, CHR 0x82, CHR 0x89, CHR 0xE3, CHR 0x81, CHR 0x8F,
    CHR 0xE5, CHR 0xBE, CHR 0x85, CHR 0xE3, CHR 0x81, CHR 0xA3, CHR 0xE3, CHR 0x81, CHR 0xA6,
    CHR 0xE3, CHR 0x81, CHR 0x8B, CHR 0xE3, CHR 0x82, CHR 0x89, CHR 0xE5, CHR 0x86, CHR 0x8D,
    CHR 0xE8, CHR 0xA9, CHR 0xA6, CHR 0xE8, CHR 0xA1, CHR 0x8C, CHR 0xE3, CHR 0x81, CHR 0x97,
    CHR 0xE3, CHR 0x81, CHR 0xA6, CHR 0xE3, CHR 0x81, CHR 0x8F, CHR 0xE3, CHR 0x81, CHR 0xA0,
    CHR 0xE3, CHR 0x81, CHR 0x95, CHR 0xE3, CHR 0x81, CHR 0x84, CHR 0xE3, CHR 0x80, CHR 0x82]"

definition msg_prefix :: string where
  \<comment> \<open>line 433: the prefix of the template that shows the error string itself.\<close>
  "msg_prefix =
    [CHR 0xE3, CHR 0x82, CHR 0xA8, CHR 0xE3, CHR 0x83, CHR 0xA9, CHR 0xE3, CHR 0x83, CHR 0xBC]
    @ '': ''"

definition msg_unavailable :: string where
  \<comment> \<open>line 436: no translation engine is available; asks to start Ollama.\<close>
  "msg_unavailable =
    [CHR 0xE7, CHR 0xBF, CHR 0xBB, CHR 0xE8, CHR 0xA8, CHR 0xB3, CHR 0xE3, CHR 0x82, CHR 0xA8,
    CHR 0xE3, CHR 0x83, CHR 0xB3, CHR 0xE3, CHR 0x82, CHR 0xB8, CHR 0xE3, CHR 0x83, CHR 0xB3,
    CHR 0xE3, CHR 0x81, CHR 0x8C, CHR 0xE5, CHR 0x88, CHR 0xA9, CHR 0xE7, CHR 0x94, CHR 0xA8,
    CHR 0xE3, CHR 0x81, CHR 0xA7, CHR 0xE3, CHR 0x81, CHR 0x8D, CHR 0xE3, CHR 0x81, CHR 0xBE,
    CHR 0xE3, CHR 0x81, CHR 0x9B, CHR 0xE3, CHR 0x82, CHR 0x93, CHR 0xE3, CHR 0x80, CHR 0x82,
    CHR 0x0A, CHR 0x0A] @ ''Ollama'' @ [CHR 0xE3, CHR 0x82, CHR 0x92, CHR 0xE8, CHR 0xB5,
    CHR 0xB7, CHR 0xE5, CHR 0x8B, CHR 0x95, CHR 0xE3, CHR 0x81, CHR 0x97, CHR 0xE3, CHR 0x81,
    CHR 0xA6, CHR 0xE3, CHR 0x81, CHR 0x8F, CHR 0xE3, CHR 0x81, CHR 0xA0, CHR 0xE3, CHR 0x81,
    CHR 0x95, CHR 0xE3, CHR 0x81, CHR 0x84] @ '':'' @ [CHR 0x0A] @ ''ollama serve''"

definition errorMessage :: "app_state \<Rightarrow> js_error \<Rightarrow> string" where
  \<comment> \<open>lines 377 and 425 to 437\<close>
  "errorMessage s err =
     (case err of
        StringError msg \<Rightarrow>
          if js_includes msg ''Cannot connect to Ollama'' then msg_connect
          else if js_includes msg ''No suitable model available'' then msg_no_model
          else if js_includes msg ''model'' then msg_model_load
          else msg_prefix @ msg
      | OtherError \<Rightarrow>
          if \<not> isHealthy s \<and> \<not> mlEngineHealthy s then msg_unavailable else msg_default)"

subsection \<open>The blocks of detectLanguageAndTranslate\<close>

definition getNativeLang :: "app_state \<Rightarrow> lang" where
  \<comment> \<open>line 274: the stored native language, Japanese when it is null or empty\<close>
  "getNativeLang s = (case truthy (storage_nativeLang s) of Some l \<Rightarrow> l | None \<Rightarrow> ''Japanese'')"

definition detectLanguage :: "world \<Rightarrow> app_state \<Rightarrow> string \<Rightarrow> event \<times> (js_error + lang)" where
  \<comment> \<open>lines 258 to 266: the engine for detection follows the preference and the ML health\<close>
  "detectLanguage w s text =
     (if useMLEngine s \<and> mlEngineHealthy s
      then (Invoke_ml_detect_language text, ml_detect_language w text)
      else (Invoke_detect_language text, detect_language w text))"

definition resolve :: "app_state \<Rightarrow> lang \<Rightarrow> app_state \<times> lang \<times> lang" where
  \<comment> \<open>lines 266 to 299: the state after the setters, then actualFromLang and actualToLang;
      the conditions read fromLang and toLang of the closure, which the setters do not change\<close>
  "resolve s detectedLang =
     (let s1 = (if fromLang s = ''Auto'' then s\<lparr>fromLang := detectedLang\<rparr> else s);
          nativeLang = getNativeLang s;
          actualFromLang = detectedLang
      in if fromLang s = ''Auto'' then
           (let actualToLang =
                  (if detectedLang = nativeLang then ''English''
                   else if detectedLang = ''English'' then nativeLang
                   else nativeLang)
            in (s1\<lparr>toLang := actualToLang\<rparr>, actualFromLang, actualToLang))
         else if detectedLang = toLang s then
           (let actualToLang = (if detectedLang = nativeLang then ''English'' else nativeLang)
            in (s1\<lparr>toLang := actualToLang\<rparr>, actualFromLang, actualToLang))
         else (s1, actualFromLang, toLang s))"

definition cacheKey_of :: "string \<Rightarrow> lang \<Rightarrow> lang \<Rightarrow> string" where
  \<comment> \<open>line 302\<close>
  "cacheKey_of text actualFromLang actualTo = text @ ''|'' @ actualFromLang @ ''|'' @ actualTo"

definition limitCacheSize :: "js_map \<Rightarrow> js_map" where
  \<comment> \<open>lines 367 to 373: one deletion, of the first key, and only if that key is truthy\<close>
  "limitCacheSize m =
     (if map_size m > 100 then
        (case truthy (first_key m) of Some firstKey \<Rightarrow> map_delete m firstKey | None \<Rightarrow> m)
      else m)"

definition saveHistory :: "app_state \<Rightarrow> string \<Rightarrow> string \<Rightarrow> lang \<Rightarrow> lang \<Rightarrow> engine \<Rightarrow> js_number \<Rightarrow> event list" where
  \<comment> \<open>lines 347 to 365 and 398 to 416: a failure of the command is caught and logged only\<close>
  "saveHistory s text translated actualFromLang actualTo eng latency =
     (if storage_saveHistory s \<noteq> Some ''false'' \<and> trim text \<noteq> [] \<and> trim translated \<noteq> [] then
        [Invoke_save_translation_history
           \<lparr>sourceText = text, translatedText_arg = translated,
            fromLanguage = actualFromLang, toLanguage = actualTo, engine_arg = eng,
            latencyMs = (if js_positive latency then Some latency else None),
            historyPath = truthy (storage_historyPath s)\<rparr>]
      else [])"

definition settle :: "app_state \<Rightarrow> event list \<Rightarrow> string \<Rightarrow> lang \<Rightarrow> lang \<Rightarrow> string \<Rightarrow> string \<Rightarrow> js_number \<Rightarrow> engine \<Rightarrow> run" where
  \<comment> \<open>lines 322 to 325 or 335 to 338, then 342 to 373\<close>
  "settle s tr text actualFromLang actualTo cacheKey translatedTextResult latency eng =
     \<lparr>state = s\<lparr>lastTranslationLatency := Some latency,
                 lastUsedEngine := Some eng,
                 translatedText := translatedTextResult,
                 translationCache :=
                   limitCacheSize (map_set (translationCache s) cacheKey translatedTextResult)\<rparr>,
      trace = tr @ saveHistory s text translatedTextResult actualFromLang actualTo eng latency,
      outcome = Translated eng\<rparr>"

definition translateBlock ::
  "world \<Rightarrow> app_state \<Rightarrow> event list \<Rightarrow> string \<Rightarrow> lang \<Rightarrow> lang \<Rightarrow> string
     \<Rightarrow> (js_error \<times> app_state \<times> event list) + run" where
  \<comment> \<open>lines 309 to 373; Inl is a rejected command, with the state and the trace at the throw\<close>
  "translateBlock w s tr text actualFromLang actualTo cacheKey =
     (let s1 = s\<lparr>isTranslating := True\<rparr>;
          tr1 = tr @ [SetIsTranslating True]
      in if useMLEngine s \<and> mlEngineHealthy s then
           (let tr2 = tr1 @ [Invoke_ml_translate text actualFromLang actualTo]
            in case ml_translate w text actualFromLang actualTo of
                 Inl err \<Rightarrow> Inl (err, s1, tr2)
               | Inr mlResponse \<Rightarrow>
                   Inr (settle s1 tr2 text actualFromLang actualTo cacheKey
                          (translated_text mlResponse) (latency_ms mlResponse) Engine_ml))
         else
           (let startTime = performance_now w tr1;
                tr2 = tr1 @ [Invoke_translate text actualFromLang actualTo]
            in case translate w text actualFromLang actualTo of
                 Inl err \<Rightarrow> Inl (err, s1, tr2)
               | Inr response \<Rightarrow>
                   Inr (settle s1 tr2 text actualFromLang actualTo cacheKey response
                          (Math_round (js_minus (performance_now w tr2) startTime)) Engine_ollama)))"

definition catchBlock ::
  "world \<Rightarrow> app_state \<Rightarrow> event list \<Rightarrow> js_error \<Rightarrow> string \<Rightarrow> lang \<Rightarrow> lang \<Rightarrow> string \<Rightarrow> run" where
  \<comment> \<open>lines 374 to 439: one fallback to Ollama, only when ML was the engine in use\<close>
  "catchBlock w s tr err text actualFromLang actualTo cacheKey =
     (if useMLEngine s \<and> mlEngineHealthy s \<and> isHealthy s then
        (let startTime = performance_now w tr;
             tr1 = tr @ [Invoke_translate text actualFromLang actualTo]
         in case translate w text actualFromLang actualTo of
              Inr response \<Rightarrow>
                (let latency = Math_round (js_minus (performance_now w tr1) startTime)
                 in \<lparr>state = s\<lparr>translatedText := response,
                                lastTranslationLatency := Some latency,
                                lastUsedEngine := Some Engine_ollama,
                                translationCache := map_set (translationCache s) cacheKey response\<rparr>,
                     trace = tr1 @ saveHistory s text response actualFromLang actualTo Engine_ollama latency,
                     outcome = FellBack\<rparr>)
            | Inl fallbackError \<Rightarrow>
                \<lparr>state = s\<lparr>translatedText := errorMessage s err\<rparr>, trace = tr1, outcome = Failed\<rparr>)
      else \<lparr>state = s\<lparr>translatedText := errorMessage s err\<rparr>, trace = tr, outcome = Failed\<rparr>)"

definition finallyBlock :: "run \<Rightarrow> run" where
  \<comment> \<open>lines 440 to 442\<close>
  "finallyBlock r =
     r\<lparr>state := (state r)\<lparr>isTranslating := False\<rparr>, trace := trace r @ [SetIsTranslating False]\<rparr>"

definition tryBlock :: "world \<Rightarrow> app_state \<Rightarrow> string \<Rightarrow> run" where
  \<comment> \<open>lines 250 to 439: the try block, and the catch block where a command is rejected\<close>
  "tryBlock w s text =
     (case detectLanguage w s text of
        (ev, Inl err) \<Rightarrow> catchBlock w s [ev] err text (fromLang s) (toLang s) []
      | (ev, Inr detectedLang) \<Rightarrow>
          (case resolve s detectedLang of
             (s1, actualFromLang, actualTo) \<Rightarrow>
               (let cacheKey = cacheKey_of text actualFromLang actualTo
                in case truthy (map_get (translationCache s1) cacheKey) of
                     Some cached \<Rightarrow>
                       \<lparr>state = s1\<lparr>translatedText := cached\<rparr>, trace = [ev], outcome = CacheHit\<rparr>
                   | None \<Rightarrow>
                       (case translateBlock w s1 [ev] text actualFromLang actualTo cacheKey of
                          Inl (err, s2, tr2) \<Rightarrow>
                            catchBlock w s2 tr2 err text actualFromLang actualTo cacheKey
                        | Inr r \<Rightarrow> r))))"

definition detectLanguageAndTranslate :: "world \<Rightarrow> app_state \<Rightarrow> string \<Rightarrow> run" where
  \<comment> \<open>line 247 returns before the try statement, so the finally block does not run there\<close>
  "detectLanguageAndTranslate w s text =
     (if trim text = [] then \<lparr>state = s, trace = [], outcome = Ignored\<rparr>
      else finallyBlock (tryBlock w s text))"


subsection \<open>Fixtures\<close>

text \<open>
  The state of a freshly mounted component (the initial values of lines 122 to 136),
  given what \<^verbatim>\<open>localStorage\<close> holds under \<^verbatim>\<open>nativeLang\<close>, and a world in the
  manner of the mocked \<^verbatim>\<open>invoke\<close> of the test suite: every command answers the same
  whatever its arguments, and the clock starts at 1000 and advances by a fixed time for
  each event.
\<close>

definition initialState :: "string option \<Rightarrow> app_state" where
  "initialState stored =
     \<lparr>translatedText = [], fromLang = ''Auto'',
      toLang = (case truthy stored of Some l \<Rightarrow> l | None \<Rightarrow> ''Japanese''),
      isTranslating = False, isHealthy = False, mlEngineHealthy = False, useMLEngine = False,
      translationCache = [], lastTranslationLatency = None, lastUsedEngine = None,
      storage_nativeLang = stored, storage_saveHistory = None, storage_historyPath = None\<rparr>"

fun mockElapsed :: "event \<Rightarrow> rat" where
  "mockElapsed (Invoke_ml_detect_language text) = 20"
| "mockElapsed (Invoke_detect_language text) = 300"
| "mockElapsed (Invoke_ml_translate text f t) = 50"
| "mockElapsed (Invoke_translate text f t) = 1200"
| "mockElapsed (Invoke_save_translation_history args) = 10"
| "mockElapsed (SetIsTranslating b) = 0"

definition mockWorld ::
  "js_error + lang \<Rightarrow> js_error + MLTranslateResponse \<Rightarrow> js_error + string \<Rightarrow> world" where
  "mockWorld detected mlResult ollamaResult =
     \<lparr>ml_detect_language = (\<lambda>text. detected), detect_language = (\<lambda>text. detected),
      ml_translate = (\<lambda>text f t. mlResult), translate = (\<lambda>text f t. ollamaResult),
      clock = (\<lambda>tr. 1000 + sum_list (map mockElapsed tr))\<rparr>"

text \<open>
  States for the examples: Ollama reachable and in use, and the accelerated engine
  preferred with both engines reachable; an answer of the accelerated engine, which
  reports its own latency; and a cache at its bound of 100 entries.
\<close>

definition ollamaReady :: app_state where
  "ollamaReady = (initialState (Some ''Japanese''))\<lparr>isHealthy := True\<rparr>"

definition mlReady :: app_state where
  "mlReady =
     (initialState (Some ''Japanese''))
       \<lparr>useMLEngine := True, mlEngineHealthy := True, isHealthy := True\<rparr>"

definition mlAnswer :: MLTranslateResponse where
  "mlAnswer = \<lparr>translated_text = ''konnichiwa'', confidence_score = Num (9 / 10), latency_ms = Num 5\<rparr>"

definition fullCache :: js_map where
  "fullCache =
     map (\<lambda>n. (cacheKey_of (replicate (Suc n) (CHR ''a'')) ''English'' ''Japanese'', ''v''))
       [0..<100]"

section \<open>Properties\<close>

subsection \<open>Unfolding one invocation\<close>

lemmas run_defs = detectLanguageAndTranslate_def finallyBlock_def tryBlock_def
  detectLanguage_def resolve_def getNativeLang_def truthy_def cacheKey_of_def map_get_def
  translateBlock_def settle_def limitCacheSize_def map_size_def first_key_def map_delete_def
  saveHistory_def catchBlock_def performance_now_def trim_def white_space_at_def js_white_space_def Let_def
  errorMessage_def

lemmas fixture_defs = initialState_def mockWorld_def mlReady_def ollamaReady_def mlAnswer_def

lemma mock_numbers:
  "to_double 1020 = Num 1020" "to_double 2220 = Num 2220"
  "to_double 1070 = Num 1070" "to_double 2270 = Num 2270"
  "to_double 1300 = Num 1300" "to_double 2500 = Num 2500"
  "to_double 1200 = Num 1200" "\<lfloor>(2401 :: rat) / 2\<rfloor> = 1200"
  "to_double 50 = Num 50" "\<lfloor>(101 :: rat) / 2\<rfloor> = 50"
  "to_double (1 / 10) = Num (3602879701896397 / 36028797018963968)"
  "to_double (6003 / 5) = Num (2640147320615731 / 2199023255552)"
  "to_double (43252570821266240307 / 36028797018963968) = Num (2401 / 2)"
  by code_simp+

lemma resolve_fields:
  assumes "resolve s d = (s', f, t)"
  shows "f = d" and "toLang s' = t"
    and "useMLEngine s' = useMLEngine s" and "mlEngineHealthy s' = mlEngineHealthy s"
    and "isHealthy s' = isHealthy s" and "translationCache s' = translationCache s"
    and "lastTranslationLatency s' = lastTranslationLatency s"
    and "lastUsedEngine s' = lastUsedEngine s" and "isTranslating s' = isTranslating s"
    and "translatedText s' = translatedText s"
  using assms by (auto simp: resolve_def Let_def split: if_splits)

lemma resolve_state:
  "fst (resolve s d) =
     s\<lparr>fromLang := (if fromLang s = ''Auto'' then d else fromLang s),
       toLang := snd (snd (resolve s d))\<rparr>"
  by (simp add: resolve_def Let_def)

lemma detect_event_not_translate:
  "fst (detectLanguage w s text) \<noteq> Invoke_translate a b c"
  "fst (detectLanguage w s text) \<noteq> Invoke_ml_translate a b c"
  "fst (detectLanguage w s text) \<noteq> SetIsTranslating flag"
  by (simp_all add: detectLanguage_def)

lemma finallyBlock_simps:
  "outcome (finallyBlock r) = outcome r"
  "trace (finallyBlock r) = trace r @ [SetIsTranslating False]"
  "lastTranslationLatency (state (finallyBlock r)) = lastTranslationLatency (state r)"
  "lastUsedEngine (state (finallyBlock r)) = lastUsedEngine (state r)"
  "translationCache (state (finallyBlock r)) = translationCache (state r)"
  "translatedText (state (finallyBlock r)) = translatedText (state r)"
  "fromLang (state (finallyBlock r)) = fromLang (state r)"
  "toLang (state (finallyBlock r)) = toLang (state r)"
  "isTranslating (state (finallyBlock r)) = False"
  by (simp_all add: finallyBlock_def)

text \<open>The two ways through the try block: a rejected detection, and a detected language.\<close>

lemma run_detection_failed:
  assumes "trim text \<noteq> []" and "detectLanguage w s text = (ev, Inl err)"
  shows "detectLanguageAndTranslate w s text =
         finallyBlock (catchBlock w s [ev] err text (fromLang s) (toLang s) [])"
  using assms by (simp add: detectLanguageAndTranslate_def tryBlock_def)

lemma run_after_detection:
  assumes "trim text \<noteq> []" and "snd (detectLanguage w s text) = Inr d"
    and "resolve s d = (s1, f, t)"
  shows "detectLanguageAndTranslate w s text =
     finallyBlock
       (case truthy (map_get (translationCache s) (cacheKey_of text d t)) of
          Some cached \<Rightarrow>
            \<lparr>state = s1\<lparr>translatedText := cached\<rparr>, trace = [fst (detectLanguage w s text)],
             outcome = CacheHit\<rparr>
        | None \<Rightarrow>
            (case translateBlock w s1 [fst (detectLanguage w s text)] text d t
                    (cacheKey_of text d t) of
               Inl (err, s2, tr2) \<Rightarrow> catchBlock w s2 tr2 err text d t (cacheKey_of text d t)
             | Inr r \<Rightarrow> r))"
proof (cases "detectLanguage w s text")
  case (Pair ev res)
  with assms(2) have det: "detectLanguage w s text = (ev, Inr d)" by simp
  then have ev: "fst (detectLanguage w s text) = ev" by simp
  show ?thesis
    unfolding ev
    using assms(1) resolve_fields(1,6) [OF assms(3)]
    by (simp add: detectLanguageAndTranslate_def tryBlock_def det assms(3) Let_def)
qed

text \<open>The first steps of the examples.\<close>

lemma hello_nonblank: "trim ''Hello'' \<noteq> []"
  by (simp add: trim_def white_space_at_def js_white_space_def)



subsection \<open>What the catch block and the translation block do\<close>

lemma catchBlock_langs:
  "toLang (state (catchBlock w s tr err text f t k)) = toLang s"
  "fromLang (state (catchBlock w s tr err text f t k)) = fromLang s"
  by (simp_all add: catchBlock_def Let_def split: sum.splits)

lemma catchBlock_outcome:
  "outcome (catchBlock w s tr err text f t k) = FellBack
   \<or> outcome (catchBlock w s tr err text f t k) = Failed"
  by (auto simp: catchBlock_def Let_def split: if_splits sum.splits)

lemma catchBlock_not_hit: "outcome (catchBlock w s tr err text f t k) \<noteq> CacheHit"
  using catchBlock_outcome [of w s tr err "text" f t k] by auto

lemma saveHistory_events:
  "Invoke_ml_translate a b c \<notin> set (saveHistory s text v f t eng latency)"
  "Invoke_translate a b c \<notin> set (saveHistory s text v f t eng latency)"
  by (simp_all add: saveHistory_def)

lemma catchBlock_fell_back:
  assumes "outcome (catchBlock w s tr err text f t k) = FellBack"
  shows "\<exists>rest. trace (catchBlock w s tr err text f t k) = tr @ Invoke_translate text f t # rest
           \<and> (\<forall>a b c. Invoke_ml_translate a b c \<notin> set rest)"
    and "lastTranslationLatency (state (catchBlock w s tr err text f t k))
           = Some (Math_round (js_minus (performance_now w (tr @ [Invoke_translate text f t]))
                                        (performance_now w tr)))"
    and "useMLEngine s \<and> mlEngineHealthy s"
  using assms
  by (auto simp: catchBlock_def Let_def saveHistory_events split: if_splits sum.splits)

lemma translateBlock_timed:
  assumes "translateBlock w s tr text f t k = Inr r"
  shows "(outcome r = Translated Engine_ollama
           \<and> (\<exists>rest. trace r = (tr @ [SetIsTranslating True]) @ Invoke_translate text f t # rest
                  \<and> (\<forall>a b c. Invoke_ml_translate a b c \<notin> set rest))
           \<and> lastTranslationLatency (state r)
               = Some (Math_round (js_minus
                   (performance_now w ((tr @ [SetIsTranslating True]) @ [Invoke_translate text f t]))
                   (performance_now w (tr @ [SetIsTranslating True])))))
       \<or> (outcome r = Translated Engine_ml
           \<and> (\<exists>mlResponse. ml_translate w text f t = Inr mlResponse
                 \<and> lastTranslationLatency (state r) = Some (latency_ms mlResponse)))"
  using assms
  by (auto simp: translateBlock_def settle_def Let_def saveHistory_events
      split: if_splits sum.splits)

lemma translateBlock_thrown_trace:
  assumes "translateBlock w s tr text f t k = Inl (err, s2, tr2)"
  shows "tr2 = tr @ [SetIsTranslating True,
                     if useMLEngine s \<and> mlEngineHealthy s then Invoke_ml_translate text f t
                     else Invoke_translate text f t]"
  using assms by (auto simp: translateBlock_def Let_def split: if_splits sum.splits)

lemma timed_by_trace:
  assumes "\<exists>tr f t rest.
             trace r = tr @ Invoke_translate text f t # rest
           \<and> (\<forall>a b c. Invoke_translate a b c \<notin> set tr)
           \<and> (\<forall>a b c. Invoke_ml_translate a b c \<notin> set rest)
           \<and> latency = Some (Math_round (js_minus
                 (performance_now w (tr @ [Invoke_translate text f t])) (performance_now w tr)))"
    and "trace r = before @ Invoke_translate text' f' t' # after"
    and "\<forall>a b c. Invoke_translate a b c \<notin> set before"
  shows "latency = Some (Math_round (js_minus
           (performance_now w (before @ [Invoke_translate text' f' t'])) (performance_now w before)))"
proof -
  from assms(1) obtain tr f t rest
    where split: "trace r = tr @ Invoke_translate text f t # rest"
      and first: "\<forall>a b c. Invoke_translate a b c \<notin> set tr"
      and latency: "latency = Some (Math_round (js_minus
                 (performance_now w (tr @ [Invoke_translate text f t])) (performance_now w tr)))"
    by blast
  have eq: "tr @ Invoke_translate text f t # rest = before @ Invoke_translate text' f' t' # after"
    using split assms(2) by simp
  have "tr = before \<and> Invoke_translate text f t = Invoke_translate text' f' t'"
    using eq first assms(3)
    by (auto simp: append_eq_append_conv2 append_eq_Cons_conv Cons_eq_append_conv) blast+
  with latency show ?thesis by simp
qed

lemma catchBlock_translate_events:
  assumes "\<forall>ev \<in> set tr. \<forall>a b c.
      ev = Invoke_translate a b c \<or> ev = Invoke_ml_translate a b c \<longrightarrow> (a, b, c) = (text, f, t)"
  shows "\<forall>ev \<in> set (trace (catchBlock w s tr err text f t k)). \<forall>a b c.
      ev = Invoke_translate a b c \<or> ev = Invoke_ml_translate a b c \<longrightarrow> (a, b, c) = (text, f, t)"
  using assms
  by (auto simp: catchBlock_def Let_def saveHistory_def split: if_splits sum.splits)

lemma translateBlock_langs:
  "translateBlock w s tr text f t k = Inr r \<Longrightarrow> toLang (state r) = toLang s"
  "translateBlock w s tr text f t k = Inl (err, s2, tr2) \<Longrightarrow> toLang s2 = toLang s"
  "translateBlock w s tr text f t k = Inr r \<Longrightarrow> fromLang (state r) = fromLang s"
  "translateBlock w s tr text f t k = Inl (err, s2, tr2) \<Longrightarrow> fromLang s2 = fromLang s"
  by (auto simp: translateBlock_def settle_def Let_def split: sum.splits if_splits)

lemma translateBlock_outcome:
  "translateBlock w s tr text f t k = Inr r \<Longrightarrow> outcome r \<noteq> CacheHit"
  by (auto simp: translateBlock_def settle_def Let_def split: sum.splits if_splits)

lemma translateBlock_translate_events:
  assumes "\<forall>ev \<in> set tr. \<forall>a b c.
      ev = Invoke_translate a b c \<or> ev = Invoke_ml_translate a b c \<longrightarrow> (a, b, c) = (text, f, t)"
  shows "translateBlock w s tr text f t k = Inr r \<Longrightarrow>
           \<forall>ev \<in> set (trace r). \<forall>a b c.
             ev = Invoke_translate a b c \<or> ev = Invoke_ml_translate a b c \<longrightarrow>
               (a, b, c) = (text, f, t)"
    and "translateBlock w s tr text f t k = Inl (err, s2, tr2) \<Longrightarrow>
           \<forall>ev \<in> set tr2. \<forall>a b c.
             ev = Invoke_translate a b c \<or> ev = Invoke_ml_translate a b c \<longrightarrow>
               (a, b, c) = (text, f, t)"
  using assms
  by (auto simp: translateBlock_def settle_def Let_def saveHistory_def
      split: if_splits sum.splits)

lemma catchBlock_failed:
  assumes "outcome (catchBlock w s tr err text f t k) = Failed"
  shows "translationCache (state (catchBlock w s tr err text f t k)) = translationCache s"
    and "translatedText (state (catchBlock w s tr err text f t k)) = errorMessage s err"
    and "lastUsedEngine (state (catchBlock w s tr err text f t k)) = lastUsedEngine s"
    and "lastTranslationLatency (state (catchBlock w s tr err text f t k)) = lastTranslationLatency s"
  using assms by (auto simp: catchBlock_def Let_def split: if_splits sum.splits)

lemma translateBlock_thrown:
  "translateBlock w s tr text f t k = Inl (err, s2, tr2) \<Longrightarrow> s2 = s\<lparr>isTranslating := True\<rparr>"
  by (auto simp: translateBlock_def Let_def split: if_splits sum.splits)

lemma errorMessage_flags:
  "isHealthy s' = isHealthy s \<Longrightarrow> mlEngineHealthy s' = mlEngineHealthy s \<Longrightarrow>
     errorMessage s' err = errorMessage s err"
  by (simp add: errorMessage_def)

lemma resolve_again:
  assumes "resolve s d = (s1, f, t)"
    and "fromLang s' = fromLang s1" and "toLang s' = toLang s1"
    and "storage_nativeLang s' = storage_nativeLang s"
  shows "snd (resolve s' d) = (d, t)"
  using assms
  by (auto simp: resolve_def Let_def getNativeLang_def split: if_splits)

lemma translateBlock_success:
  assumes "translateBlock w s tr text f t k = Inr r"
  shows "translationCache (state r)
           = limitCacheSize (map_set (translationCache s) k (translatedText (state r)))"
    and "fromLang (state r) = fromLang s" and "toLang (state r) = toLang s"
    and "storage_nativeLang (state r) = storage_nativeLang s"
    and "\<exists>e. outcome r = Translated e"
  using assms
  by (auto simp: translateBlock_def settle_def Let_def split: if_splits sum.splits)

lemma resolve_storage:
  "resolve s d = (s1, f, t) \<Longrightarrow> storage_nativeLang s1 = storage_nativeLang s"
  by (auto simp: resolve_def Let_def split: if_splits)

lemma tryBlock_toLang:
  assumes "snd (detectLanguage w s text) = Inr d" and "resolve s d = (s', f, t)"
  shows "toLang (state (tryBlock w s text)) = t"
proof (cases "detectLanguage w s text")
  case (Pair ev res)
  with assms(1) have res: "res = Inr d" by simp
  show ?thesis
    using resolve_fields(2) [OF assms(2)]
    by (auto simp: tryBlock_def Pair res assms(2) Let_def catchBlock_langs
        split: option.splits sum.splits prod.splits dest: translateBlock_langs)
qed

subsection \<open>The Map as a list\<close>

lemma map_of_map_set: "map_of (map_set m k v) = (map_of m)(k \<mapsto> v)"
  by (induction m k v rule: map_set.induct) auto

lemma length_map_set:
  "length (map_set m k v) = (if map_of m k = None then Suc (length m) else length m)"
  by (induction m k v rule: map_set.induct) auto

lemma keys_map_set:
  "map fst (map_set m k v) = (if map_of m k = None then map fst m @ [k] else map fst m)"
  by (induction m k v rule: map_set.induct) (auto simp: map_of_eq_None_iff)

lemma distinct_map_set:
  "distinct (map fst m) \<Longrightarrow> distinct (map fst (map_set m k v))"
  by (auto simp: keys_map_set map_of_eq_None_iff)

lemma map_of_map_delete:
  "map_of (map_delete m k') k = (if k = k' then None else map_of m k)"
  by (induction m) (auto simp: map_delete_def)

lemma first_key_keys:
  "first_key m = (case map fst m of [] \<Rightarrow> None | k # ks \<Rightarrow> Some k)"
  by (cases m) (simp_all add: first_key_def)

lemma cached_after_insertion:
  assumes "length m \<le> 100"
  shows "map_of (limitCacheSize (map_set m k v)) k = Some v"
proof (cases "length (map_set m k v) > 100")
  case False
  then show ?thesis
    by (simp add: limitCacheSize_def map_size_def map_of_map_set)
next
  case True
  with assms have new: "map_of m k = None" and full: "length m = 100"
    by (auto simp: length_map_set split: if_splits)
  from full obtain kv rest where m: "m = kv # rest"
    by (cases m) auto
  have "fst kv \<noteq> k"
    using new m by (auto split: if_splits)
  moreover have "first_key (map_set m k v) = Some (fst kv)"
    using new m by (simp add: first_key_keys keys_map_set)
  ultimately show ?thesis
    by (simp add: limitCacheSize_def truthy_def map_of_map_delete map_of_map_set)
qed

lemma run_fell_back:
  assumes "trim text \<noteq> []"
    and "snd (detectLanguage w s text) = Inr d"
    and "resolve s d = (s1, f, t)"
    and "truthy (map_get (translationCache s) (cacheKey_of text f t)) = None"
    and "useMLEngine s" and "mlEngineHealthy s" and "isHealthy s"
    and "ml_translate w text f t = Inl err"
    and "translate w text f t = Inr response"
  shows "outcome (detectLanguageAndTranslate w s text) = FellBack"
    and "translationCache (state (detectLanguageAndTranslate w s text)) =
           map_set (translationCache s) (cacheKey_of text f t) response"
proof -
  have fd: "f = d" using resolve_fields(1) [OF assms(3)] .
  note same = resolve_fields(3-6) [OF assms(3)]
  show "outcome (detectLanguageAndTranslate w s text) = FellBack"
    and "translationCache (state (detectLanguageAndTranslate w s text)) =
           map_set (translationCache s) (cacheKey_of text f t) response"
    unfolding run_after_detection [OF assms(1-3)]
    using assms(4-9) same
    by (simp_all add: fd finallyBlock_def translateBlock_def catchBlock_def Let_def)
qed

lemma fullCache_facts:
  "length fullCache = 100"
  "map_of fullCache ''Hello|English|Japanese'' = None"
  "map_of fullCache ''a|English|Japanese'' = Some ''v''"
  "first_key fullCache = Some ''a|English|Japanese''"
proof -
  show "length fullCache = 100" by (simp add: fullCache_def)
  have "\<forall>kv \<in> set fullCache. hd (fst kv) = CHR ''a''"
    by (auto simp: fullCache_def cacheKey_of_def)
  then have "''Hello|English|Japanese'' \<notin> fst ` set fullCache"
    by force
  then show "map_of fullCache ''Hello|English|Japanese'' = None"
    by (simp add: map_of_eq_None_iff)
  have split: "fullCache = (''a|English|Japanese'', ''v'') # tl fullCache"
    by (simp add: fullCache_def cacheKey_of_def upt_rec [of 0] map_tl)
  show "map_of fullCache ''a|English|Japanese'' = Some ''v''"
    by (subst split) simp
  show "first_key fullCache = Some ''a|English|Japanese''"
    by (subst split) (simp add: first_key_def)
qed

subsection \<open>Source and target after the resolution\<close>

text \<open>
  The resolution returns the same language as source and as target in exactly one
  situation: the detected language and the native language are both English, and the
  declared source is Auto or the current target is English.
\<close>

lemma resolve_same_source_and_target:
  assumes "resolve s d = (s1, f, t)"
  shows "f = t \<longleftrightarrow>
           d = ''English'' \<and> getNativeLang s = ''English''
           \<and> (fromLang s = ''Auto'' \<or> toLang s = ''English'')"
  using assms by (auto simp: resolve_def Let_def split: if_splits)

text \<open>
  Claim C1. The claim is that the resolution never yields the same language as source and
  as target, for every native language, English included. With English stored as the
  native language, the declared source Auto and the text detected as English, the code
  resolves the pair (English, English), sends it to the engine and caches under it.
\<close>

theorem english_native_language_resolves_to_english_english:
  "getNativeLang (initialState (Some ''English'')) = ''English''
 \<and> fromLang (initialState (Some ''English'')) = ''Auto''
 \<and> snd (resolve (initialState (Some ''English'')) ''English'') = (''English'', ''English'')
 \<and> trace (detectLanguageAndTranslate
       (mockWorld (Inr ''English'') (Inl OtherError) (Inr ''Hello''))
       (initialState (Some ''English'')) ''Hello'')
     = [Invoke_detect_language ''Hello'', SetIsTranslating True,
        Invoke_translate ''Hello'' ''English'' ''English'',
        Invoke_save_translation_history
          \<lparr>sourceText = ''Hello'', translatedText_arg = ''Hello'', fromLanguage = ''English'',
           toLanguage = ''English'', engine_arg = Engine_ollama, latencyMs = Some (Num 1200),
           historyPath = None\<rparr>,
        SetIsTranslating False]
 \<and> translationCache (state (detectLanguageAndTranslate
       (mockWorld (Inr ''English'') (Inl OtherError) (Inr ''Hello''))
       (initialState (Some ''English'')) ''Hello''))
     = [(''Hello|English|English'', ''Hello'')]"
  by (simp add: run_defs fixture_defs mock_numbers)

subsection \<open>The size of the cache\<close>

text \<open>
  On the path that ends at line 373 an insertion is followed by the size check, which
  brings a cache of at most 100 entries with no empty first key back to at most 100 by
  deleting its first, that is earliest inserted, key.
\<close>

lemma map_delete_first:
  assumes "distinct (map fst (kv # rest))"
  shows "map_delete (kv # rest) (fst kv) = rest"
proof -
  have "fst kv \<notin> set (map fst rest)"
    using assms by simp
  then have "\<And>x. x \<in> set rest \<Longrightarrow> fst x \<noteq> fst kv"
    by (metis imageI set_map)
  then have "filter (\<lambda>x. fst x \<noteq> fst kv) rest = rest"
    by (induction rest) auto
  then show ?thesis
    by (simp add: map_delete_def)
qed

lemma limitCacheSize_evicts_first:
  assumes "length m > 100" and "distinct (map fst m)" and "first_key m \<noteq> Some []"
  shows "limitCacheSize m = tl m"
proof (cases m)
  case Nil
  with assms(1) show ?thesis by simp
next
  case (Cons kv rest)
  have "map_delete m (fst kv) = rest"
    using map_delete_first [of kv rest] assms(2) Cons by simp
  with assms(1,3) Cons show ?thesis
    by (simp add: limitCacheSize_def map_size_def first_key_def truthy_def)
qed

lemma limitCacheSize_bound:
  assumes "length m \<le> 101" and "distinct (map fst m)" and "first_key m \<noteq> Some []"
  shows "length (limitCacheSize m) \<le> 100"
proof (cases "length m > 100")
  case True
  then show ?thesis
    using limitCacheSize_evicts_first [OF True assms(2,3)] assms(1) by simp
next
  case False
  then show ?thesis by (simp add: limitCacheSize_def map_size_def)
qed

lemma bound_kept_by_insertion:
  assumes "length m \<le> 100 \<and> distinct (map fst m) \<and> [] \<notin> set (map fst m)" and "k \<noteq> []"
  shows "length (limitCacheSize (map_set m k v)) \<le> 100
       \<and> distinct (map fst (limitCacheSize (map_set m k v)))
       \<and> [] \<notin> set (map fst (limitCacheSize (map_set m k v)))"
proof -
  let ?m = "map_set m k v"
  have len: "length ?m \<le> 101"
    using assms(1) by (simp add: length_map_set)
  have dist: "distinct (map fst ?m)"
    using assms(1) by (simp add: distinct_map_set)
  have keys: "set (map fst ?m) \<subseteq> insert k (set (map fst m))"
    by (simp add: keys_map_set) auto
  have nonempty: "[] \<notin> set (map fst ?m)"
    using keys assms by blast
  then have fk: "first_key ?m \<noteq> Some []"
    by (cases ?m) (auto simp: first_key_def)
  have sub: "set (map fst (limitCacheSize ?m)) \<subseteq> set (map fst ?m)"
    by (auto simp: limitCacheSize_def map_delete_def split: option.splits)
  have "distinct (map fst (limitCacheSize ?m))"
    using dist by (auto simp: limitCacheSize_def map_delete_def distinct_map_filter split: option.splits)
  then show ?thesis
    using limitCacheSize_bound [OF len dist fk] sub nonempty
    by blast
qed

lemma cacheKey_of_nonempty: "cacheKey_of text f t \<noteq> []"
  by (simp add: cacheKey_of_def)

text \<open>
  On every path but the fallback, a cache that is within the bound of 100 entries, with
  no key twice and no empty key, is so again when the invocation ends.
\<close>

lemma bound_kept_without_fallback:
  assumes "length (translationCache s) \<le> 100 \<and> distinct (map fst (translationCache s))
             \<and> [] \<notin> set (map fst (translationCache s))"
    and "outcome (detectLanguageAndTranslate w s text) \<noteq> FellBack"
  shows "length (translationCache (state (detectLanguageAndTranslate w s text))) \<le> 100
       \<and> distinct (map fst (translationCache (state (detectLanguageAndTranslate w s text))))
       \<and> [] \<notin> set (map fst (translationCache (state (detectLanguageAndTranslate w s text))))"
proof (cases "trim text = []")
  case True
  with assms(1) show ?thesis by (simp add: detectLanguageAndTranslate_def)
next
  case nonblank: False
  show ?thesis
  proof (cases "snd (detectLanguage w s text)")
    case (Inl err)
    obtain ev where det: "detectLanguage w s text = (ev, Inl err)"
      using Inl by (cases "detectLanguage w s text") auto
    have "outcome (catchBlock w s [ev] err text (fromLang s) (toLang s) []) = Failed"
      using assms(2) catchBlock_outcome [of w s "[ev]" err "text" "fromLang s" "toLang s" "[]"]
      unfolding run_detection_failed [OF nonblank det] finallyBlock_simps by simp
    then show ?thesis
      unfolding run_detection_failed [OF nonblank det] finallyBlock_simps
      using assms(1) by (simp add: catchBlock_failed)
  next
    case (Inr d)
    note detected = Inr
    obtain s1 f t where r: "resolve s d = (s1, f, t)"
      by (cases "resolve s d") auto
    let ?k = "cacheKey_of text d t"
    let ?ev = "fst (detectLanguage w s text)"
    note run = run_after_detection [OF nonblank detected r]
    note c1 = resolve_fields(6) [OF r]
    show ?thesis
    proof (cases "truthy (map_get (translationCache s) ?k)")
      case (Some cached)
      with assms(1) c1 show ?thesis unfolding run finallyBlock_simps by simp
    next
      case None
      show ?thesis
      proof (cases "translateBlock w s1 [?ev] text d t ?k")
        case (Inl thrown)
        obtain err s2 tr2 where thrown: "thrown = (err, s2, tr2)"
          by (cases thrown) auto
        have s2: "s2 = s1\<lparr>isTranslating := True\<rparr>"
          using translateBlock_thrown Inl thrown by simp
        have "outcome (catchBlock w s2 tr2 err text d t ?k) = Failed"
          using assms(2) catchBlock_outcome [of w s2 tr2 err "text" d t ?k]
          unfolding run finallyBlock_simps by (simp add: None Inl thrown)
        then show ?thesis
          unfolding run finallyBlock_simps
          using assms(1) c1 by (simp add: None Inl thrown catchBlock_failed s2)
      next
        case (Inr res)
        show ?thesis
          unfolding run finallyBlock_simps
          using translateBlock_success(1) [OF Inr] assms(1) c1
            bound_kept_by_insertion [OF _ cacheKey_of_nonempty]
          by (simp add: None Inr)
      qed
    qed
  qed
qed

text \<open>
  The empty key comes from the fallback after a rejected detection: the catch block then
  still holds the initial value of \<^verbatim>\<open>cacheKey\<close> (line 252) and stores the answer of
  Ollama under it.
\<close>

lemma fallback_after_rejected_detection_stores_under_the_empty_key:
  "translationCache (state (detectLanguageAndTranslate
       (mockWorld (Inl (StringError ''detection timed out'')) (Inr mlAnswer) (Inr ''konnichiwa''))
       mlReady ''Hello'')) = [([], ''konnichiwa'')]"
  by (simp add: run_defs fixture_defs mock_numbers)

text \<open>
  Claim C2. The claim is that the cache holds at most 100 entries after every completed
  invocation, the fallback path included. The fallback path (lines 395 to 397) inserts
  without the size check of lines 367 to 373: from a cache of 100 entries, a request
  whose accelerated translation fails and whose Ollama fallback answers leaves 101
  entries, the earliest one still among them.
\<close>

theorem fallback_insertion_exceeds_the_bound:
  "map_size fullCache = 100
 \<and> outcome (detectLanguageAndTranslate
       (mockWorld (Inr ''English'') (Inl (StringError ''timeout'')) (Inr ''konnichiwa''))
       (mlReady\<lparr>translationCache := fullCache\<rparr>) ''Hello'') = FellBack
 \<and> map_size (translationCache (state (detectLanguageAndTranslate
       (mockWorld (Inr ''English'') (Inl (StringError ''timeout'')) (Inr ''konnichiwa''))
       (mlReady\<lparr>translationCache := fullCache\<rparr>) ''Hello''))) = 101
 \<and> first_key fullCache = Some ''a|English|Japanese''
 \<and> map_get (translationCache (state (detectLanguageAndTranslate
       (mockWorld (Inr ''English'') (Inl (StringError ''timeout'')) (Inr ''konnichiwa''))
       (mlReady\<lparr>translationCache := fullCache\<rparr>) ''Hello''))) ''a|English|Japanese'' = Some ''v''"
proof -
  let ?w = "mockWorld (Inr ''English'') (Inl (StringError ''timeout'')) (Inr ''konnichiwa'')"
  let ?s = "mlReady\<lparr>translationCache := fullCache\<rparr>"
  have nonblank: "trim ''Hello'' \<noteq> []"
    by (simp add: trim_def white_space_at_def js_white_space_def)
  have det: "snd (detectLanguage ?w ?s ''Hello'') = Inr ''English''"
    by (simp add: detectLanguage_def fixture_defs)
  have res: "resolve ?s ''English'' =
      (?s\<lparr>fromLang := ''English'', toLang := ''Japanese''\<rparr>, ''English'', ''Japanese'')"
    by (simp add: resolve_def getNativeLang_def truthy_def Let_def fixture_defs)
  have key: "cacheKey_of ''Hello'' ''English'' ''Japanese'' = ''Hello|English|Japanese''"
    by (simp add: cacheKey_of_def)
  have miss: "truthy (map_get (translationCache ?s) (cacheKey_of ''Hello'' ''English'' ''Japanese'')) = None"
    by (simp add: key map_get_def fullCache_facts truthy_def)
  have flags: "useMLEngine ?s" "mlEngineHealthy ?s" "isHealthy ?s"
    by (simp_all add: fixture_defs)
  have ml: "ml_translate ?w ''Hello'' ''English'' ''Japanese'' = Inl (StringError ''timeout'')"
    and ol: "translate ?w ''Hello'' ''English'' ''Japanese'' = Inr ''konnichiwa''"
    by (simp_all add: fixture_defs)
  note fb = run_fell_back [OF nonblank det res miss flags ml ol]
  show ?thesis
    unfolding fb key
    by (simp add: map_size_def map_get_def length_map_set map_of_map_set fullCache_facts)
qed

subsection \<open>Which engine is tried after a failure\<close>




subsection \<open>A rejected detection\<close>




subsection \<open>A declared source in manual mode\<close>

text \<open>
  Claim C5. The claim is that a declared concrete source that differs from the target is
  passed through unchanged, no detection result overriding it. With the declared pair
  (Japanese, English) and a text detected as Chinese, the code invokes the engine with
  (Chinese, English) and caches under that pair.
\<close>

theorem declared_source_is_overridden_counterexample:
  "fromLang (ollamaReady\<lparr>fromLang := ''Japanese'', toLang := ''English''\<rparr>) = ''Japanese''
 \<and> toLang (ollamaReady\<lparr>fromLang := ''Japanese'', toLang := ''English''\<rparr>) = ''English''
 \<and> trace (detectLanguageAndTranslate (mockWorld (Inr ''Chinese'') (Inr mlAnswer) (Inr ''hello''))
       (ollamaReady\<lparr>fromLang := ''Japanese'', toLang := ''English''\<rparr>) ''ni hao'')
     = [Invoke_detect_language ''ni hao'', SetIsTranslating True,
        Invoke_translate ''ni hao'' ''Chinese'' ''English'',
        Invoke_save_translation_history
          \<lparr>sourceText = ''ni hao'', translatedText_arg = ''hello'', fromLanguage = ''Chinese'',
           toLanguage = ''English'', engine_arg = Engine_ollama, latencyMs = Some (Num 1200),
           historyPath = None\<rparr>,
        SetIsTranslating False]
 \<and> translationCache (state (detectLanguageAndTranslate
       (mockWorld (Inr ''Chinese'') (Inr mlAnswer) (Inr ''hello''))
       (ollamaReady\<lparr>fromLang := ''Japanese'', toLang := ''English''\<rparr>) ''ni hao''))
     = [(''ni hao|Chinese|English'', ''hello'')]"
  by (simp add: run_defs fixture_defs mock_numbers)

text \<open>
  Claim C5, amended. In manual mode with a declared source that differs from the target,
  the detection still runs and the effective source is the detected language d; the
  effective pair is the declared pair exactly when d is the declared source. The target
  passes through unchanged when d differs from it; when d equals the target, the target
  becomes English if d is the native language and the native language otherwise. Every
  translation command of the invocation carries the text with that pair, the cache is
  looked up under that pair, the visible source language stays the declared one and the
  visible target language becomes the effective target.
\<close>

theorem manual_source_is_the_detected_language:
  assumes "trim text \<noteq> []"
    and "fromLang s \<noteq> ''Auto''"
    and "fromLang s \<noteq> toLang s"
    and "snd (detectLanguage w s text) = Inr d"
    and "resolve s d = (s1, f, t)"
  shows "f = d
       \<and> (d \<noteq> toLang s \<longrightarrow> t = toLang s)
       \<and> (d = toLang s \<longrightarrow> t = (if d = getNativeLang s then ''English'' else getNativeLang s))
       \<and> ((f, t) = (fromLang s, toLang s) \<longleftrightarrow> d = fromLang s)
       \<and> (\<forall>ev \<in> set (trace (detectLanguageAndTranslate w s text)). \<forall>a b c.
             ev = Invoke_translate a b c \<or> ev = Invoke_ml_translate a b c \<longrightarrow>
               (a, b, c) = (text, d, t))
       \<and> (outcome (detectLanguageAndTranslate w s text) = CacheHit \<longleftrightarrow>
             truthy (map_get (translationCache s) (cacheKey_of text d t)) \<noteq> None)
       \<and> fromLang (state (detectLanguageAndTranslate w s text)) = fromLang s
       \<and> toLang (state (detectLanguageAndTranslate w s text)) = t"
proof -
  let ?run = "detectLanguageAndTranslate w s text"
  let ?ev = "fst (detectLanguage w s text)"
  let ?k = "cacheKey_of text d t"
  have fd: "f = d" using resolve_fields(1) [OF assms(5)] .
  have target: "(d \<noteq> toLang s \<longrightarrow> t = toLang s)
       \<and> (d = toLang s \<longrightarrow> t = (if d = getNativeLang s then ''English'' else getNativeLang s))"
    using assms(2,5) by (auto simp: resolve_def Let_def split: if_splits)
  have pair: "(f, t) = (fromLang s, toLang s) \<longleftrightarrow> d = fromLang s"
    using fd target assms(3) by auto
  have s1_from: "fromLang s1 = fromLang s"
    using assms(2,5) by (auto simp: resolve_def Let_def split: if_splits)
  have final_to: "toLang (state ?run) = t"
    using tryBlock_toLang [OF assms(4,5)] assms(1)
    by (simp add: detectLanguageAndTranslate_def finallyBlock_def)
  have start: "\<forall>ev \<in> set [?ev]. \<forall>a b c.
      ev = Invoke_translate a b c \<or> ev = Invoke_ml_translate a b c \<longrightarrow> (a, b, c) = (text, d, t)"
    by (simp add: detect_event_not_translate)
  have rest: "(\<forall>ev \<in> set (trace ?run). \<forall>a b c.
             ev = Invoke_translate a b c \<or> ev = Invoke_ml_translate a b c \<longrightarrow>
               (a, b, c) = (text, d, t))
       \<and> (outcome ?run = CacheHit \<longleftrightarrow> truthy (map_get (translationCache s) ?k) \<noteq> None)
       \<and> fromLang (state ?run) = fromLang s"
  proof (cases "truthy (map_get (translationCache s) ?k)")
    case (Some cached)
    show ?thesis
      unfolding run_after_detection [OF assms(1,4,5)] finallyBlock_simps
      by (simp add: Some s1_from detect_event_not_translate)
  next
    case None
    show ?thesis
    proof (cases "translateBlock w s1 [?ev] text d t ?k")
      case (Inl thrown)
      obtain err s2 tr2 where thrown: "thrown = (err, s2, tr2)"
        by (cases thrown) auto
      have tb: "translateBlock w s1 [?ev] text d t ?k = Inl (err, s2, tr2)"
        using Inl thrown by simp
      show ?thesis
        unfolding run_after_detection [OF assms(1,4,5)] finallyBlock_simps
        using catchBlock_translate_events
            [OF translateBlock_translate_events(2) [OF start tb], of w s2 err ?k]
          translateBlock_langs(4) [OF tb]
        by (simp add: None tb catchBlock_langs catchBlock_not_hit s1_from)
    next
      case (Inr res)
      show ?thesis
        unfolding run_after_detection [OF assms(1,4,5)] finallyBlock_simps
        using translateBlock_translate_events(1) [OF start Inr] translateBlock_langs(3) [OF Inr]
          translateBlock_outcome [OF Inr]
        by (simp add: None Inr s1_from)
    qed
  qed
  show ?thesis using fd target pair rest final_to by blast
qed

theorem manual_source_is_the_detected_language_witness:
  "snd (resolve (ollamaReady\<lparr>fromLang := ''Japanese'', toLang := ''English''\<rparr>) ''Chinese'')
     = (''Chinese'', ''English'')
 \<and> fromLang (state (detectLanguageAndTranslate
       (mockWorld (Inr ''Chinese'') (Inr mlAnswer) (Inr ''hello''))
       (ollamaReady\<lparr>fromLang := ''Japanese'', toLang := ''English''\<rparr>) ''ni hao'')) = ''Japanese''
 \<and> toLang (state (detectLanguageAndTranslate
       (mockWorld (Inr ''Chinese'') (Inr mlAnswer) (Inr ''hello''))
       (ollamaReady\<lparr>fromLang := ''Japanese'', toLang := ''English''\<rparr>) ''ni hao'')) = ''English''
 \<and> outcome (detectLanguageAndTranslate
       (mockWorld (Inr ''Chinese'') (Inr mlAnswer) (Inr ''hello''))
       (ollamaReady\<lparr>fromLang := ''Japanese'', toLang := ''English''\<rparr>) ''ni hao'') \<noteq> CacheHit"
proof -
  let ?w = "mockWorld (Inr ''Chinese'') (Inr mlAnswer) (Inr ''hello'')"
  let ?s = "ollamaReady\<lparr>fromLang := ''Japanese'', toLang := ''English''\<rparr>"
  have nonblank: "trim ''ni hao'' \<noteq> []"
    by (simp add: trim_def white_space_at_def js_white_space_def)
  have manual: "fromLang ?s \<noteq> ''Auto''" and differ: "fromLang ?s \<noteq> toLang ?s"
    by simp_all
  have det: "snd (detectLanguage ?w ?s ''ni hao'') = Inr ''Chinese''"
    by (simp add: detectLanguage_def fixture_defs)
  have res: "resolve ?s ''Chinese'' = (?s, ''Chinese'', ''English'')"
    by (simp add: resolve_def getNativeLang_def truthy_def Let_def fixture_defs)
  have miss: "truthy (map_get (translationCache ?s) (cacheKey_of ''ni hao'' ''Chinese'' ''English'')) = None"
    by (simp add: map_get_def truthy_def fixture_defs)
  show ?thesis
    using manual_source_is_the_detected_language [OF nonblank manual differ det res] miss
    by (simp add: res)
qed

subsection \<open>The same request twice\<close>

text \<open>
  A request that was translated on the main path with a non-empty result, from a cache
  within its bound, is found in the cache when the same text is handled again and
  detected as the same language: nothing but the detection is invoked, and the text shown
  is the one cached.
\<close>

lemma repeated_request_hits_the_cache:
  assumes nonblank: "trim text \<noteq> []"
    and det: "snd (detectLanguage w s text) = Inr d"
    and first: "outcome (detectLanguageAndTranslate w s text) = Translated e"
    and nonempty: "translatedText (state (detectLanguageAndTranslate w s text)) \<noteq> []"
    and bound: "length (translationCache s) \<le> 100"
    and again: "snd (detectLanguage w' (state (detectLanguageAndTranslate w s text)) text) = Inr d"
  shows "outcome (detectLanguageAndTranslate w' (state (detectLanguageAndTranslate w s text)) text)
           = CacheHit
       \<and> translatedText (state (detectLanguageAndTranslate w'
             (state (detectLanguageAndTranslate w s text)) text))
           = translatedText (state (detectLanguageAndTranslate w s text))
       \<and> trace (detectLanguageAndTranslate w' (state (detectLanguageAndTranslate w s text)) text)
           = [fst (detectLanguage w' (state (detectLanguageAndTranslate w s text)) text),
              SetIsTranslating False]
       \<and> translationCache (state (detectLanguageAndTranslate w'
             (state (detectLanguageAndTranslate w s text)) text))
           = translationCache (state (detectLanguageAndTranslate w s text))
       \<and> lastTranslationLatency (state (detectLanguageAndTranslate w'
             (state (detectLanguageAndTranslate w s text)) text))
           = lastTranslationLatency (state (detectLanguageAndTranslate w s text))"
proof -
  let ?r1 = "detectLanguageAndTranslate w s text"
  let ?ev = "fst (detectLanguage w s text)"
  obtain s1 f t where r: "resolve s d = (s1, f, t)"
    by (cases "resolve s d") auto
  let ?k = "cacheKey_of text d t"
  note run1 = run_after_detection [OF nonblank det r]
  have miss: "truthy (map_get (translationCache s) ?k) = None"
  proof (cases "truthy (map_get (translationCache s) ?k)")
    case (Some cached)
    with first show ?thesis unfolding run1 finallyBlock_simps by simp
  qed simp
  obtain res where tb: "translateBlock w s1 [?ev] text d t ?k = Inr res"
  proof (cases "translateBlock w s1 [?ev] text d t ?k")
    case (Inl thrown)
    obtain err s2 tr2 where "thrown = (err, s2, tr2)" by (cases thrown) auto
    with first Inl miss have False
      unfolding run1 finallyBlock_simps
      using catchBlock_outcome [of w s2 tr2 err "text" d t ?k] by auto
    then show ?thesis ..
  qed (rule that)
  have r1: "?r1 = finallyBlock res"
    unfolding run1 by (simp add: miss tb)
  note ok = translateBlock_success [OF tb]
  let ?s' = "state ?r1"
  have text1: "translatedText ?s' = translatedText (state res)"
    and cache1: "translationCache ?s' = translationCache (state res)"
    and from1: "fromLang ?s' = fromLang s1" and to1: "toLang ?s' = toLang s1"
    and store1: "storage_nativeLang ?s' = storage_nativeLang s"
    using ok(2-4) resolve_storage [OF r] by (simp_all add: r1 finallyBlock_def)
  obtain s2 f2 t2 where r2: "resolve ?s' d = (s2, f2, t2)"
    by (cases "resolve ?s' d") auto
  have same: "f2 = d" "t2 = t"
    using resolve_again [OF r from1 to1 store1] by (simp_all add: r2)
  have cached: "map_get (translationCache ?s') ?k = Some (translatedText ?s')"
    using cached_after_insertion [of "translationCache s1" ?k "translatedText (state res)"]
      bound ok(1) resolve_fields(6) [OF r]
    by (simp add: map_get_def cache1 text1)
  then have hit: "truthy (map_get (translationCache ?s') ?k) = Some (translatedText ?s')"
    using nonempty by (simp add: truthy_def)
  show ?thesis
    unfolding run_after_detection [OF nonblank again r2] same
    using resolve_fields(6,7) [OF r2]
    by (simp add: hit finallyBlock_def)
qed

text \<open>
  Claim C6. The claim is that after one successful translation a second invocation with
  the same arguments is a cache hit with no second translation command. The lookup at
  lines 303 and 304 tests the cached string for truthiness, so an entry whose value is
  the empty string is never found: when the engine answers the empty string, the first
  invocation succeeds and caches it, and the second invocation invokes the translation
  again.
\<close>

theorem empty_translation_is_translated_again:
  "outcome (detectLanguageAndTranslate (mockWorld (Inr ''English'') (Inl OtherError) (Inr ''''))
      ollamaReady ''Hello'') = Translated Engine_ollama
 \<and> translationCache (state (detectLanguageAndTranslate
      (mockWorld (Inr ''English'') (Inl OtherError) (Inr '''')) ollamaReady ''Hello''))
     = [(''Hello|English|Japanese'', '''')]
 \<and> trace (detectLanguageAndTranslate (mockWorld (Inr ''English'') (Inl OtherError) (Inr ''''))
      (state (detectLanguageAndTranslate
         (mockWorld (Inr ''English'') (Inl OtherError) (Inr '''')) ollamaReady ''Hello'')) ''Hello'')
     = [Invoke_detect_language ''Hello'', SetIsTranslating True,
        Invoke_translate ''Hello'' ''English'' ''Japanese'', SetIsTranslating False]
 \<and> outcome (detectLanguageAndTranslate (mockWorld (Inr ''English'') (Inl OtherError) (Inr ''''))
      (state (detectLanguageAndTranslate
         (mockWorld (Inr ''English'') (Inl OtherError) (Inr '''')) ollamaReady ''Hello'')) ''Hello'')
     = Translated Engine_ollama"
  by (simp add: run_defs fixture_defs mock_numbers)

subsection \<open>Every attempt failing\<close>

text \<open>
  However the error state is reached, after a rejected detection or a rejected
  translation, the cache and the metadata of the last translation are as before and the
  text shown is the message chosen for the first rejection.
\<close>

lemma error_state_leaves_the_cache:
  assumes "trim text \<noteq> []"
    and "outcome (detectLanguageAndTranslate w s text) = Failed"
  shows "translationCache (state (detectLanguageAndTranslate w s text)) = translationCache s
       \<and> lastUsedEngine (state (detectLanguageAndTranslate w s text)) = lastUsedEngine s
       \<and> lastTranslationLatency (state (detectLanguageAndTranslate w s text))
           = lastTranslationLatency s
       \<and> (\<exists>err. translatedText (state (detectLanguageAndTranslate w s text)) = errorMessage s err)"
proof (cases "snd (detectLanguage w s text)")
  case (Inl err)
  obtain ev where det: "detectLanguage w s text = (ev, Inl err)"
    using Inl by (cases "detectLanguage w s text") auto
  show ?thesis
    using assms(2) unfolding run_detection_failed [OF assms(1) det] finallyBlock_simps
    by (auto dest: catchBlock_failed)
next
  case (Inr d)
  note detected = Inr
  obtain s1 f t where r: "resolve s d = (s1, f, t)"
    by (cases "resolve s d") auto
  let ?k = "cacheKey_of text d t"
  let ?ev = "fst (detectLanguage w s text)"
  note run = run_after_detection [OF assms(1) detected r]
  show ?thesis
  proof (cases "truthy (map_get (translationCache s) ?k)")
    case (Some cached)
    with assms(2) show ?thesis unfolding run finallyBlock_simps by simp
  next
    case None
    show ?thesis
    proof (cases "translateBlock w s1 [?ev] text d t ?k")
      case (Inl thrown)
      obtain err s2 tr2 where thrown: "thrown = (err, s2, tr2)"
        by (cases thrown) auto
      have s2: "s2 = s1\<lparr>isTranslating := True\<rparr>"
        using translateBlock_thrown Inl thrown by simp
      have failed: "outcome (catchBlock w s2 tr2 err text d t ?k) = Failed"
        using assms(2) unfolding run finallyBlock_simps by (simp add: None Inl thrown)
      have msg: "errorMessage s2 err = errorMessage s err"
        by (rule errorMessage_flags) (simp_all add: s2 resolve_fields(4,5) [OF r])
      show ?thesis
        unfolding run finallyBlock_simps
        using catchBlock_failed [OF failed] resolve_fields(6-8) [OF r] msg
        by (auto simp: None Inl thrown s2)
    next
      case (Inr res)
      with assms(2) None translateBlock_success(5) [OF Inr] show ?thesis
        unfolding run finallyBlock_simps by auto
    qed
  qed
qed




subsection \<open>The target chosen for an automatic source\<close>



subsection \<open>The latency that is reported\<close>

text \<open>
  The subtraction is the one of doubles: with the clock at 0.1 before the Ollama call and
  at 1200.6 after it, the two readings differ by 1200.5 as doubles and the latency kept
  is 1201, where the exact difference of the two readings is below 1200.5.
\<close>

lemma latency_rounds_the_double_difference:
  "lastTranslationLatency (state (detectLanguageAndTranslate
       ((mockWorld (Inr ''English'') (Inl OtherError) (Inr ''konnichiwa''))
          \<lparr>clock := (\<lambda>tr. if Invoke_translate ''Hello'' ''English'' ''Japanese'' \<in> set tr
                          then 6003 / 5 else 1 / 10)\<rparr>)
       ollamaReady ''Hello'')) = Some (Num 1201)"
  by (simp add: run_defs fixture_defs mock_numbers)

text \<open>
  Claim C9. The claim is that the reported latency of every successful translation is
  the wall-clock time measured around the succeeding call, not a value reported by the
  engine. When the accelerated engine answers, the code stores the latency that the
  answer carries (line 323): in a world where the clock advances by 50 during that call
  and the answer says 5, the latency kept is 5.
\<close>

theorem ml_latency_is_engine_reported_counterexample:
  "outcome (detectLanguageAndTranslate
       (mockWorld (Inr ''English'') (Inr mlAnswer) (Inl OtherError)) mlReady ''Hello'')
     = Translated Engine_ml
 \<and> trace (detectLanguageAndTranslate
       (mockWorld (Inr ''English'') (Inr mlAnswer) (Inl OtherError)) mlReady ''Hello'')
     = [Invoke_ml_detect_language ''Hello'', SetIsTranslating True,
        Invoke_ml_translate ''Hello'' ''English'' ''Japanese'',
        Invoke_save_translation_history
          \<lparr>sourceText = ''Hello'', translatedText_arg = ''konnichiwa'', fromLanguage = ''English'',
           toLanguage = ''Japanese'', engine_arg = Engine_ml, latencyMs = Some (Num 5),
           historyPath = None\<rparr>,
        SetIsTranslating False]
 \<and> Math_round (js_minus
       (performance_now (mockWorld (Inr ''English'') (Inr mlAnswer) (Inl OtherError))
          [Invoke_ml_detect_language ''Hello'', SetIsTranslating True,
           Invoke_ml_translate ''Hello'' ''English'' ''Japanese''])
       (performance_now (mockWorld (Inr ''English'') (Inr mlAnswer) (Inl OtherError))
          [Invoke_ml_detect_language ''Hello'', SetIsTranslating True])) = Num 50
 \<and> latency_ms mlAnswer = Num 5
 \<and> lastTranslationLatency (state (detectLanguageAndTranslate
       (mockWorld (Inr ''English'') (Inr mlAnswer) (Inl OtherError)) mlReady ''Hello''))
     = Some (Num 5)"
  by (simp add: run_defs fixture_defs mock_numbers)

text \<open>
  Claim C9, amended. When Ollama produced the translation, directly or as the fallback,
  the latency kept is \<^verbatim>\<open>Math.round\<close> of the difference, in double arithmetic, between
  the reading of the clock right after the one Ollama translation command and the reading
  right before it. No Ollama translation precedes the first reading, and every attempt on
  the accelerated engine does, so the time of the detection and of a failed earlier
  attempt is left out. When the accelerated engine produced the translation, the latency
  kept is the value that the engine reported in its answer.
\<close>

theorem reported_latency_by_engine:
  assumes "trim text \<noteq> []"
  shows "(outcome (detectLanguageAndTranslate w s text) = Translated Engine_ollama
          \<or> outcome (detectLanguageAndTranslate w s text) = FellBack \<longrightarrow>
            (\<exists>tr f t rest.
                 trace (detectLanguageAndTranslate w s text) = tr @ Invoke_translate text f t # rest
               \<and> (\<forall>a b c. Invoke_translate a b c \<notin> set tr)
               \<and> (\<forall>a b c. Invoke_ml_translate a b c \<notin> set rest)
               \<and> lastTranslationLatency (state (detectLanguageAndTranslate w s text))
                   = Some (Math_round (js_minus
                       (performance_now w (tr @ [Invoke_translate text f t]))
                       (performance_now w tr)))))
       \<and> (outcome (detectLanguageAndTranslate w s text) = Translated Engine_ml \<longrightarrow>
            (\<exists>f t mlResponse. ml_translate w text f t = Inr mlResponse
                 \<and> lastTranslationLatency (state (detectLanguageAndTranslate w s text))
                     = Some (latency_ms mlResponse)))"
proof -
  let ?run = "detectLanguageAndTranslate w s text"
  let ?timed = "\<exists>tr f t rest.
                 trace ?run = tr @ Invoke_translate text f t # rest
               \<and> (\<forall>a b c. Invoke_translate a b c \<notin> set tr)
               \<and> (\<forall>a b c. Invoke_ml_translate a b c \<notin> set rest)
               \<and> lastTranslationLatency (state ?run)
                   = Some (Math_round (js_minus
                       (performance_now w (tr @ [Invoke_translate text f t]))
                       (performance_now w tr)))"
  let ?reported = "\<exists>f t mlResponse. ml_translate w text f t = Inr mlResponse
                 \<and> lastTranslationLatency (state ?run) = Some (latency_ms mlResponse)"
  have fell_back: ?timed
    if inner: "?run = finallyBlock (catchBlock w s' tr err text f t k)"
      and fb: "outcome (catchBlock w s' tr err text f t k) = FellBack"
      and before: "\<forall>a b c. Invoke_translate a b c \<notin> set tr"
    for s' tr err f t k
  proof -
    let ?cb = "catchBlock w s' tr err text f t k"
    from catchBlock_fell_back(1) [OF fb] obtain rest
      where rest: "trace ?cb = tr @ Invoke_translate text f t # rest"
        and no_ml: "\<forall>a b c. Invoke_ml_translate a b c \<notin> set rest"
      by blast
    have "trace ?run = tr @ Invoke_translate text f t # (rest @ [SetIsTranslating False])"
      by (simp add: inner finallyBlock_simps rest)
    moreover have "\<forall>a b c. Invoke_ml_translate a b c \<notin> set (rest @ [SetIsTranslating False])"
      using no_ml by simp
    moreover have "lastTranslationLatency (state ?run)
        = Some (Math_round (js_minus (performance_now w (tr @ [Invoke_translate text f t]))
                                     (performance_now w tr)))"
      using catchBlock_fell_back(2) [OF fb] by (simp add: inner finallyBlock_simps)
    ultimately show ?thesis
      using before by blast
  qed
  have cases: "(?timed \<and> (outcome ?run = Translated Engine_ollama \<or> outcome ?run = FellBack))
      \<or> (?reported \<and> outcome ?run = Translated Engine_ml)
      \<or> outcome ?run = CacheHit \<or> outcome ?run = Failed"
  proof (cases "snd (detectLanguage w s text)")
    case (Inl err)
    obtain ev where det: "detectLanguage w s text = (ev, Inl err)"
      using Inl by (cases "detectLanguage w s text") auto
    let ?cb = "catchBlock w s [ev] err text (fromLang s) (toLang s) []"
    note inner = run_detection_failed [OF assms det]
    have before: "\<forall>a b c. Invoke_translate a b c \<notin> set [ev]"
      using det by (auto simp: detectLanguage_def split: if_splits)
    have out: "outcome ?run = outcome ?cb"
      by (simp add: inner finallyBlock_simps)
    show ?thesis
      using catchBlock_outcome [of w s "[ev]" err "text" "fromLang s" "toLang s" "[]"]
        fell_back [OF inner _ before] out
      by auto
  next
    case (Inr d)
    note detected = Inr
    obtain s1 f t where r: "resolve s d = (s1, f, t)"
      by (cases "resolve s d") auto
    let ?k = "cacheKey_of text d t"
    let ?ev = "fst (detectLanguage w s text)"
    note run = run_after_detection [OF assms detected r]
    show ?thesis
    proof (cases "truthy (map_get (translationCache s) ?k)")
      case (Some cached)
      then have "outcome ?run = CacheHit"
        unfolding run by (simp add: finallyBlock_simps)
      then show ?thesis by simp
    next
      case None
      show ?thesis
      proof (cases "translateBlock w s1 [?ev] text d t ?k")
        case (Inl thrown)
        obtain err s2 tr2 where thrown: "thrown = (err, s2, tr2)"
          by (cases thrown) auto
        have tb: "translateBlock w s1 [?ev] text d t ?k = Inl (err, s2, tr2)"
          using Inl thrown by simp
        have s2: "s2 = s1\<lparr>isTranslating := True\<rparr>"
          using translateBlock_thrown [OF tb] .
        let ?cb = "catchBlock w s2 tr2 err text d t ?k"
        have inner: "?run = finallyBlock ?cb"
          unfolding run by (simp add: None tb)
        have out: "outcome ?run = outcome ?cb"
          by (simp add: inner finallyBlock_simps)
        have before: "\<forall>a b c. Invoke_translate a b c \<notin> set tr2" if "outcome ?cb = FellBack"
        proof -
          from catchBlock_fell_back(3) [OF that] have "useMLEngine s1 \<and> mlEngineHealthy s1"
            by (simp add: s2)
          then have "tr2 = [?ev, SetIsTranslating True, Invoke_ml_translate text d t]"
            using translateBlock_thrown_trace [OF tb] by simp
          then show ?thesis
            by (auto simp: detectLanguage_def)
        qed
        show ?thesis
          using catchBlock_outcome [of w s2 tr2 err "text" d t ?k]
            fell_back [OF inner _ before] out
          by auto
      next
        case (Inr res)
        have inner: "?run = finallyBlock res"
          unfolding run by (simp add: None Inr)
        have out: "outcome ?run = outcome res"
          by (simp add: inner finallyBlock_simps)
        from translateBlock_timed [OF Inr] show ?thesis
        proof
          assume ol: "outcome res = Translated Engine_ollama
             \<and> (\<exists>rest. trace res = ([?ev] @ [SetIsTranslating True]) @ Invoke_translate text d t # rest
                    \<and> (\<forall>a b c. Invoke_ml_translate a b c \<notin> set rest))
             \<and> lastTranslationLatency (state res)
                 = Some (Math_round (js_minus
                     (performance_now w (([?ev] @ [SetIsTranslating True]) @ [Invoke_translate text d t]))
                     (performance_now w ([?ev] @ [SetIsTranslating True]))))"
          then obtain rest
            where rest: "trace res = ([?ev] @ [SetIsTranslating True]) @ Invoke_translate text d t # rest"
              and no_ml: "\<forall>a b c. Invoke_ml_translate a b c \<notin> set rest"
            by blast
          let ?tr = "[?ev] @ [SetIsTranslating True]"
          have "trace ?run = ?tr @ Invoke_translate text d t # (rest @ [SetIsTranslating False])"
            by (simp add: inner finallyBlock_simps rest)
          moreover have "\<forall>a b c. Invoke_ml_translate a b c \<notin> set (rest @ [SetIsTranslating False])"
            using no_ml by simp
          moreover have "\<forall>a b c. Invoke_translate a b c \<notin> set ?tr"
            by (auto simp: detectLanguage_def)
          moreover have "lastTranslationLatency (state ?run)
              = Some (Math_round (js_minus (performance_now w (?tr @ [Invoke_translate text d t]))
                                           (performance_now w ?tr)))"
            using ol by (simp add: inner finallyBlock_simps)
          ultimately have ?timed
            by blast
          then show ?thesis
            using ol out by simp
        next
          assume ml: "outcome res = Translated Engine_ml
             \<and> (\<exists>mlResponse. ml_translate w text d t = Inr mlResponse
                   \<and> lastTranslationLatency (state res) = Some (latency_ms mlResponse))"
          then have ?reported
            by (auto simp: inner finallyBlock_simps)
          then show ?thesis
            using ml out by simp
        qed
      qed
    qed
  qed
  show ?thesis
    using cases by auto
qed

theorem reported_latency_by_engine_witness:
  "lastTranslationLatency (state (detectLanguageAndTranslate
       (mockWorld (Inr ''English'') (Inl (StringError ''timeout'')) (Inr ''konnichiwa''))
       ollamaReady ''Hello'')) = Some (Num 1200)
 \<and> lastTranslationLatency (state (detectLanguageAndTranslate
       (mockWorld (Inr ''English'') (Inl (StringError ''timeout'')) (Inr ''konnichiwa''))
       mlReady ''Hello'')) = Some (Num 1200)
 \<and> lastTranslationLatency (state (detectLanguageAndTranslate
       (mockWorld (Inr ''English'') (Inr mlAnswer) (Inl OtherError)) mlReady ''Hello''))
     = Some (Num 5)"
proof -
  let ?w1 = "mockWorld (Inr ''English'') (Inl (StringError ''timeout'')) (Inr ''konnichiwa'')"
  let ?w2 = "mockWorld (Inr ''English'') (Inr mlAnswer) (Inl OtherError)"
  let ?call = "Invoke_translate ''Hello'' ''English'' ''Japanese''"
  let ?saved = "Invoke_save_translation_history
          \<lparr>sourceText = ''Hello'', translatedText_arg = ''konnichiwa'', fromLanguage = ''English'',
           toLanguage = ''Japanese'', engine_arg = Engine_ollama, latencyMs = Some (Num 1200),
           historyPath = None\<rparr>"
  have direct: "outcome (detectLanguageAndTranslate ?w1 ollamaReady ''Hello'') = Translated Engine_ollama"
    and fallback: "outcome (detectLanguageAndTranslate ?w1 mlReady ''Hello'') = FellBack"
    and accelerated: "outcome (detectLanguageAndTranslate ?w2 mlReady ''Hello'') = Translated Engine_ml"
    by (simp_all add: run_defs fixture_defs)
  have trace1: "trace (detectLanguageAndTranslate ?w1 ollamaReady ''Hello'')
      = [Invoke_detect_language ''Hello'', SetIsTranslating True] @ ?call
          # [?saved, SetIsTranslating False]"
    and trace2: "trace (detectLanguageAndTranslate ?w1 mlReady ''Hello'')
      = [Invoke_ml_detect_language ''Hello'', SetIsTranslating True,
         Invoke_ml_translate ''Hello'' ''English'' ''Japanese''] @ ?call
          # [?saved, SetIsTranslating False]"
    by (simp_all add: run_defs fixture_defs mock_numbers)
  have took1: "Math_round (js_minus
        (performance_now ?w1 ([Invoke_detect_language ''Hello'', SetIsTranslating True] @ [?call]))
        (performance_now ?w1 [Invoke_detect_language ''Hello'', SetIsTranslating True])) = Num 1200"
    and took2: "Math_round (js_minus
        (performance_now ?w1 ([Invoke_ml_detect_language ''Hello'', SetIsTranslating True,
           Invoke_ml_translate ''Hello'' ''English'' ''Japanese''] @ [?call]))
        (performance_now ?w1 [Invoke_ml_detect_language ''Hello'', SetIsTranslating True,
           Invoke_ml_translate ''Hello'' ''English'' ''Japanese''])) = Num 1200"
    by (simp_all add: performance_now_def mockWorld_def mock_numbers)
  have answer: "ml_translate ?w2 ''Hello'' f t = Inr r \<Longrightarrow> latency_ms r = Num 5" for f t r
    by (auto simp: mockWorld_def mlAnswer_def)
  note thm1 = reported_latency_by_engine [OF hello_nonblank, of ?w1 ollamaReady]
  note thm2 = reported_latency_by_engine [OF hello_nonblank, of ?w1 mlReady]
  note thm3 = reported_latency_by_engine [OF hello_nonblank, of ?w2 mlReady]
  note timed1 = thm1 [THEN conjunct1, THEN mp, OF disjI1, OF direct]
  note timed2 = thm2 [THEN conjunct1, THEN mp, OF disjI2, OF fallback]
  have "lastTranslationLatency (state (detectLanguageAndTranslate ?w1 ollamaReady ''Hello''))
      = Some (Num 1200)"
    using timed_by_trace [OF timed1 trace1] took1 by simp
  moreover have "lastTranslationLatency (state (detectLanguageAndTranslate ?w1 mlReady ''Hello''))
      = Some (Num 1200)"
    using timed_by_trace [OF timed2 trace2] took2 by simp
  moreover have "lastTranslationLatency (state (detectLanguageAndTranslate ?w2 mlReady ''Hello''))
      = Some (Num 5)"
    using thm3 accelerated by (auto dest: answer)
  ultimately show ?thesis by simp
qed

subsection \<open>What a cache hit changes\<close>

text \<open>
  Claim C10. The claim is that on a cache hit the only visible fields modified are the
  translated text and the target language. With the declared source Auto, the cache-hit
  path has already replaced the declared source by the detected language (line 270).
\<close>

theorem cache_hit_changes_the_declared_source_counterexample:
  "outcome (detectLanguageAndTranslate
       (mockWorld (Inr ''English'') (Inr mlAnswer) (Inr ''konnichiwa''))
       (ollamaReady\<lparr>translationCache := [(''Hello|English|Japanese'', ''konnichiwa'')]\<rparr>)
       ''Hello'') = CacheHit
 \<and> fromLang (ollamaReady\<lparr>translationCache := [(''Hello|English|Japanese'', ''konnichiwa'')]\<rparr>)
     = ''Auto''
 \<and> fromLang (state (detectLanguageAndTranslate
       (mockWorld (Inr ''English'') (Inr mlAnswer) (Inr ''konnichiwa''))
       (ollamaReady\<lparr>translationCache := [(''Hello|English|Japanese'', ''konnichiwa'')]\<rparr>)
       ''Hello'')) = ''English''"
  by (simp add: run_defs fixture_defs mock_numbers)

text \<open>
  Claim C10, amended. On a cache hit the state at the end is the state at the start with
  four fields written: the declared source (the detected language, if it was Auto), the
  target language (the resolved target), the translated text (the cached value) and the
  is-translating flag (false, by the finally block). The engine last used, the latency
  last kept and the cache are as before, nothing is invoked but the detection, and the
  is-translating flag is never set to true.
\<close>

theorem cache_hit_writes_text_languages_and_flag_only:
  assumes "trim text \<noteq> []"
    and "outcome (detectLanguageAndTranslate w s text) = CacheHit"
  shows "\<exists>d cached.
           snd (detectLanguage w s text) = Inr d
         \<and> truthy (map_get (translationCache s)
               (cacheKey_of text d (snd (snd (resolve s d))))) = Some cached
         \<and> state (detectLanguageAndTranslate w s text) =
             s\<lparr>fromLang := (if fromLang s = ''Auto'' then d else fromLang s),
               toLang := snd (snd (resolve s d)),
               translatedText := cached,
               isTranslating := False\<rparr>
         \<and> lastUsedEngine (state (detectLanguageAndTranslate w s text)) = lastUsedEngine s
         \<and> lastTranslationLatency (state (detectLanguageAndTranslate w s text))
             = lastTranslationLatency s
         \<and> translationCache (state (detectLanguageAndTranslate w s text)) = translationCache s
         \<and> trace (detectLanguageAndTranslate w s text)
             = [fst (detectLanguage w s text), SetIsTranslating False]
         \<and> SetIsTranslating True \<notin> set (trace (detectLanguageAndTranslate w s text))"
proof (cases "snd (detectLanguage w s text)")
  case (Inl err)
  obtain ev where det: "detectLanguage w s text = (ev, Inl err)"
    using Inl by (cases "detectLanguage w s text") auto
  have False
    using assms(2) unfolding run_detection_failed [OF assms(1) det] finallyBlock_simps
    by (simp add: catchBlock_not_hit)
  then show ?thesis ..
next
  case (Inr d)
  note detected = Inr
  obtain s1 f t where r: "resolve s d = (s1, f, t)"
    by (cases "resolve s d") auto
  let ?k = "cacheKey_of text d t"
  let ?ev = "fst (detectLanguage w s text)"
  have s1: "s1 = s\<lparr>fromLang := (if fromLang s = ''Auto'' then d else fromLang s), toLang := t\<rparr>"
    using resolve_state [of s d] by (simp add: r)
  show ?thesis
  proof (cases "truthy (map_get (translationCache s) ?k)")
    case (Some cached)
    have "state (detectLanguageAndTranslate w s text)
            = s1\<lparr>translatedText := cached, isTranslating := False\<rparr>"
      and "trace (detectLanguageAndTranslate w s text) = [?ev, SetIsTranslating False]"
      unfolding run_after_detection [OF assms(1) detected r]
      by (simp_all add: Some finallyBlock_def)
    then show ?thesis
      using detected Some detect_event_not_translate(3) [of w s "text" True]
      by (simp add: r s1)
  next
    case None
    have False
    proof (cases "translateBlock w s1 [?ev] text d t ?k")
      case (Inl thrown)
      obtain err s2 tr2 where thrown: "thrown = (err, s2, tr2)"
        by (cases thrown) auto
      show False
        using assms(2)
        unfolding run_after_detection [OF assms(1) detected r] finallyBlock_simps
        by (simp add: None Inl thrown catchBlock_not_hit)
    next
      case (Inr res)
      show False
        using assms(2) translateBlock_outcome [OF Inr]
        unfolding run_after_detection [OF assms(1) detected r] finallyBlock_simps
        by (simp add: None Inr)
    qed
    then show ?thesis ..
  qed
qed

theorem cache_hit_writes_text_languages_and_flag_only_witness:
  "lastUsedEngine (state (detectLanguageAndTranslate
       (mockWorld (Inr ''English'') (Inr mlAnswer) (Inr ''konnichiwa''))
       (mlReady\<lparr>translationCache := [(''Hello|English|Japanese'', ''konnichiwa'')],
                lastUsedEngine := Some Engine_ml, lastTranslationLatency := Some (Num 7)\<rparr>)
       ''Hello'')) = Some Engine_ml
 \<and> lastTranslationLatency (state (detectLanguageAndTranslate
       (mockWorld (Inr ''English'') (Inr mlAnswer) (Inr ''konnichiwa''))
       (mlReady\<lparr>translationCache := [(''Hello|English|Japanese'', ''konnichiwa'')],
                lastUsedEngine := Some Engine_ml, lastTranslationLatency := Some (Num 7)\<rparr>)
       ''Hello'')) = Some (Num 7)
 \<and> trace (detectLanguageAndTranslate
       (mockWorld (Inr ''English'') (Inr mlAnswer) (Inr ''konnichiwa''))
       (mlReady\<lparr>translationCache := [(''Hello|English|Japanese'', ''konnichiwa'')],
                lastUsedEngine := Some Engine_ml, lastTranslationLatency := Some (Num 7)\<rparr>)
       ''Hello'') = [Invoke_ml_detect_language ''Hello'', SetIsTranslating False]"
proof -
  let ?w = "mockWorld (Inr ''English'') (Inr mlAnswer) (Inr ''konnichiwa'')"
  let ?s = "mlReady\<lparr>translationCache := [(''Hello|English|Japanese'', ''konnichiwa'')],
                lastUsedEngine := Some Engine_ml, lastTranslationLatency := Some (Num 7)\<rparr>"
  have hit: "outcome (detectLanguageAndTranslate ?w ?s ''Hello'') = CacheHit"
    by (simp add: run_defs fixture_defs)
  have ev: "fst (detectLanguage ?w ?s ''Hello'') = Invoke_ml_detect_language ''Hello''"
    by (simp add: detectLanguage_def fixture_defs)
  show ?thesis
    using cache_hit_writes_text_languages_and_flag_only [OF hello_nonblank hit]
    by (auto simp: ev)
qed

end
